theory Spec2Isabelle
  imports Complex_Main "HOL-Library.AList"
begin

section \<open>Python values\<close>

text \<open>
  A Python \<^verbatim>\<open>str\<close> is a sequence of Unicode code points, so it is modelled as a list of
  natural numbers, one per code point.  Literals that are plain ASCII are written with
  \<open>ascii\<close>; every other literal of the source is given by its code points, with the
  source line it comes from.

  A Python \<^verbatim>\<open>float\<close> is modelled as a real number.  The program only compares moods,
  clamps them with \<^verbatim>\<open>max\<close>/\<^verbatim>\<open>min\<close> and copies them, all of which are exact on finite
  floats; NaN, the infinities and rounding are outside the model.  Debug printing is not
  modelled.
\<close>

type_synonym pystr = "nat list"

definition ascii :: "string \<Rightarrow> pystr" where
  "ascii s = map of_char s"

text \<open>\<^verbatim>\<open>sep.join(xs)\<close>\<close>

fun join :: "pystr \<Rightarrow> pystr list \<Rightarrow> pystr" where
  "join sep [] = []"
| "join sep [x] = x"
| "join sep (x # y # ys) = x @ sep @ join sep (y # ys)"

text \<open>\<^verbatim>\<open>xs[-n:]\<close> for a positive literal \<open>n\<close>: the last \<open>n\<close> elements, all of them when
  the list is shorter.\<close>

definition last_n :: "nat \<Rightarrow> 'a list \<Rightarrow> 'a list" where
  "last_n n xs = drop (length xs - n) xs"

text \<open>\<^verbatim>\<open>s.startswith(p)\<close>, \<^verbatim>\<open>s.endswith(p)\<close> and \<^verbatim>\<open>p in s\<close> on strings.\<close>

definition startswith :: "pystr \<Rightarrow> pystr \<Rightarrow> bool" where
  "startswith s p = (take (length p) s = p)"

definition endswith :: "pystr \<Rightarrow> pystr \<Rightarrow> bool" where
  "endswith s p = (length p \<le> length s \<and> drop (length s - length p) s = p)"

fun contains :: "pystr \<Rightarrow> pystr \<Rightarrow> bool" where
  "contains p [] = (p = [])"
| "contains p (x # xs) = (take (length p) (x # xs) = p \<or> contains p xs)"

text \<open>\<^verbatim>\<open>s.strip()\<close> removes, at both ends, the characters for which \<^verbatim>\<open>isspace()\<close> holds.\<close>

definition isspace :: "nat \<Rightarrow> bool" where
  "isspace c =
     ((9 \<le> c \<and> c \<le> 13) \<or> (28 \<le> c \<and> c \<le> 32) \<or> c = 133 \<or> c = 160 \<or> c = 5760 \<or>
      (8192 \<le> c \<and> c \<le> 8202) \<or> c = 8232 \<or> c = 8233 \<or> c = 8239 \<or> c = 8287 \<or> c = 12288)"

definition strip :: "pystr \<Rightarrow> pystr" where
  "strip s = rev (dropWhile isspace (rev (dropWhile isspace s)))"

text \<open>
  What \<^verbatim>\<open>json.loads\<close> returns: \<^verbatim>\<open>None\<close>, a \<^verbatim>\<open>bool\<close>, an \<^verbatim>\<open>int\<close>, a finite \<^verbatim>\<open>float\<close>,
  a \<^verbatim>\<open>str\<close>, a \<^verbatim>\<open>list\<close> or a \<^verbatim>\<open>dict\<close> with string keys (an association list with
  one entry per key).
\<close>

datatype json =
    JNull
  | JBool bool
  | JInt int
  | JFloat real
  | JStr pystr
  | JArr "json list"
  | JObj "(pystr \<times> json) list"

text \<open>
  The exceptions that the modelled code can meet.  \<open>OpenAIError\<close> and \<open>Exception\<close> carry
  the text \<^verbatim>\<open>str(e)\<close>; \<open>Exception\<close> stands for every exception that is none of the
  others.
\<close>

datatype pyerr =
    OpenAIError pystr
  | Exception pystr
  | JSONDecodeError
  | ValueError
  | TypeError
  | AttributeError
  | KeyError
  | OverflowError

text \<open>
  The functions of Python and of its standard library that the code calls and that are
  not modelled here.  They are parameters of the model:
  \<^item> \<open>str_lower\<close> is \<^verbatim>\<open>str.lower\<close>;
  \<^item> \<open>json_loads\<close> is \<^verbatim>\<open>json.loads\<close>, with \<open>None\<close> for \<^verbatim>\<open>json.JSONDecodeError\<close>;
  \<^item> \<open>float_of_str\<close> is \<^verbatim>\<open>float\<close> on a string, with \<open>None\<close> for \<^verbatim>\<open>ValueError\<close>;
  \<^item> \<open>format_2f\<close> is the format specification \<^verbatim>\<open>.2f\<close>;
  \<^item> \<open>py_str\<close> is \<^verbatim>\<open>str\<close> on a value that is not a string;
  \<^item> \<open>exn_text\<close> is \<^verbatim>\<open>str(e)\<close> for an exception raised by the interpreter.
\<close>

record pylib =
  str_lower :: "pystr \<Rightarrow> pystr"
  json_loads :: "pystr \<Rightarrow> json option"
  float_of_str :: "pystr \<Rightarrow> real option"
  format_2f :: "real \<Rightarrow> pystr"
  py_str :: "json \<Rightarrow> pystr"
  exn_text :: "pyerr \<Rightarrow> pystr"

text \<open>A value inside an f-string: a string stands for itself.\<close>

definition fmt :: "pylib \<Rightarrow> json \<Rightarrow> pystr" where
  "fmt lib v = (case v of JStr s \<Rightarrow> s | _ \<Rightarrow> py_str lib v)"

definition str_of_exn :: "pylib \<Rightarrow> pyerr \<Rightarrow> pystr" where
  "str_of_exn lib e = (case e of OpenAIError s \<Rightarrow> s | Exception s \<Rightarrow> s | _ \<Rightarrow> exn_text lib e)"

section \<open>Configuration (service\_config.py, config.py)\<close>

text \<open>
  \<^verbatim>\<open>ConfigService._load_config\<close> builds a dictionary from built-in defaults, the attributes
  of \<^verbatim>\<open>config.py\<close> and a fixed list of environment variables.  The record below holds the
  keys the modelled code reads.  \<open>file_config\<close> is the configuration that
  \<^verbatim>\<open>config.py\<close> yields when no environment variable is set; \<^verbatim>\<open>default_mood\<close> has no
  environment override at all.
\<close>

record Config =
  game_title :: pystr
  game_version :: pystr
  max_response_length :: int
  debug_mode :: bool
  default_mood :: real

definition file_config :: Config where
  "file_config =
     \<lparr> game_title = ascii ''AI Chat Game - WebCLI'',
       game_version = ascii ''2.0.0-webcli'',
       max_response_length = 500,
       debug_mode = False,
       default_mood = 0.5 \<rparr>"

definition get_game_title :: "Config \<Rightarrow> pystr" where
  "get_game_title cfg = game_title cfg"

definition is_debug_mode :: "Config \<Rightarrow> bool" where
  "is_debug_mode cfg = debug_mode cfg"

definition get_max_response_length :: "Config \<Rightarrow> int" where
  "get_max_response_length cfg = max_response_length cfg"

definition get_default_mood :: "Config \<Rightarrow> real" where
  "get_default_mood cfg = default_mood cfg"

section \<open>Characters (service\_character.py)\<close>

text \<open>
  An entry of \<^verbatim>\<open>conversation_history\<close>: the dictionary with the keys \<^verbatim>\<open>user\<close> and
  \<^verbatim>\<open>ai\<close>.  The reply stored under \<^verbatim>\<open>ai\<close> is the \<^verbatim>\<open>msg\<close> value of a JSON document,
  and Python does not check that it is a string.
\<close>

record Turn =
  user :: pystr
  ai :: json

text \<open>
  The class \<^verbatim>\<open>Character\<close>.  The field \<^verbatim>\<open>name\<close> is called \<open>char_name\<close> here, since
  \<^verbatim>\<open>Location\<close> has a field of the same name.
\<close>

record Character =
  character_id :: pystr
  char_name :: pystr
  personality :: pystr
  location :: pystr
  mood :: real
  conversation_history :: "Turn list"

text \<open>
  \<^verbatim>\<open>Character.__init__\<close>.  The optional argument \<^verbatim>\<open>mood: float = None\<close> is an
  \<open>option\<close>; \<^verbatim>\<open>mood or ConfigService().get_default_mood()\<close> takes the default when the
  argument is falsy, which for a float means \<^verbatim>\<open>None\<close> or zero.
\<close>

definition Character_init ::
  "Config \<Rightarrow> pystr \<Rightarrow> pystr \<Rightarrow> pystr \<Rightarrow> pystr \<Rightarrow> real option \<Rightarrow> Character" where
  "Character_init cfg cid nm pers loc m =
     \<lparr> character_id = cid,
       char_name = nm,
       personality = pers,
       location = loc,
       mood = (case m of
                 None \<Rightarrow> get_default_mood cfg
               | Some x \<Rightarrow> if x = 0 then get_default_mood cfg else x),
       conversation_history = [] \<rparr>"

definition add_conversation :: "Character \<Rightarrow> pystr \<Rightarrow> json \<Rightarrow> Character" where
  "add_conversation c user_message ai_response =
     (let h = conversation_history c @ [\<lparr> user = user_message, ai = ai_response \<rparr>]
      in if length h > 10
         then c\<lparr> conversation_history := last_n 10 h \<rparr>
         else c\<lparr> conversation_history := h \<rparr>)"

definition update_mood :: "Character \<Rightarrow> real \<Rightarrow> Character" where
  "update_mood c new_mood = c\<lparr> mood := max 0 (min 1 new_mood) \<rparr>"

definition mood_very_friendly :: pystr where
  \<comment> \<open>service_character.py, line 52\<close>
  "mood_very_friendly =
     [38750, 24120, 21451, 22909]"

definition mood_friendly :: pystr where
  \<comment> \<open>service_character.py, line 54\<close>
  "mood_friendly =
     [21451, 22909]"

definition mood_neutral :: pystr where
  \<comment> \<open>service_character.py, line 56\<close>
  "mood_neutral =
     [26222, 36890]"

definition mood_cold :: pystr where
  \<comment> \<open>service_character.py, line 58\<close>
  "mood_cold =
     [20919, 28129]"

definition mood_hostile :: pystr where
  \<comment> \<open>service_character.py, line 60\<close>
  "mood_hostile =
     [25932, 23545]"

definition get_mood_description :: "Character \<Rightarrow> pystr" where
  "get_mood_description c =
     (if mood c \<ge> 0.8 then mood_very_friendly
      else if mood c \<ge> 0.6 then mood_friendly
      else if mood c \<ge> 0.4 then mood_neutral
      else if mood c \<ge> 0.2 then mood_cold
      else mood_hostile)"

definition get_description :: "Character \<Rightarrow> pystr" where
  "get_description c = char_name c @ ascii '' ('' @ get_mood_description c @ ascii '')''"

text \<open>The names and personalities of the fixed roster.\<close>

definition elder_name :: pystr where
  \<comment> \<open>service_character.py, line 79\<close>
  "elder_name =
     [26449, 24196, 38271, 32769]"

definition elder_personality :: pystr where
  \<comment> \<open>service_character.py, line 80\<close>
  "elder_personality =
     [26234, 24935, 32780, 21644, 34108, 30340, 32769, 20154, 65292, 23545, 26449, 24196,
      30340, 21382, 21490, 20102, 22914, 25351, 25484, 12290, 20182, 24635, 26159, 20048,
      20110, 20026, 24180, 36731, 30340, 20882, 38505, 32773, 25552, 20379, 24314, 35758,
      21644, 25351, 23548, 12290, 35828, 35805, 28201, 21644, 20294, 23500, 26377, 21746,
      29702, 12290]"

definition shopkeeper_name :: pystr where
  \<comment> \<open>service_character.py, line 88\<close>
  "shopkeeper_name =
     [21830, 24215, 32769, 26495]"

definition shopkeeper_personality :: pystr where
  \<comment> \<open>service_character.py, line 89\<close>
  "shopkeeper_personality =
     [31934, 26126, 20294, 35802, 23454, 30340, 21830, 20154, 65292, 23545, 21508, 31181,
      21830, 21697, 21644, 20215, 26684, 20102, 22914, 25351, 25484, 12290, 20182, 21916,
      27426, 19982, 39038, 23458, 32842, 22825, 65292, 24635, 26159, 33021, 25552, 20379,
      26377, 29992, 30340, 20449, 24687, 12290, 35828, 35805, 30452, 25509, 20294, 21451,
      21892, 12290]"

definition traveler_name :: pystr where
  \<comment> \<open>service_character.py, line 97\<close>
  "traveler_name =
     [31070, 31192, 26053, 32773]"

definition traveler_personality :: pystr where
  \<comment> \<open>service_character.py, line 98\<close>
  "traveler_personality =
     [26469, 33258, 36828, 26041, 30340, 31070, 31192, 26053, 32773, 65292, 35265, 22810,
      35782, 24191, 65292, 30693, 36947, 35768, 22810, 22806, 30028, 30340, 31192, 23494,
      12290, 20182, 30340, 35805, 35821, 20013, 24635, 26159, 24102, 30528, 19968, 19997,
      31070, 31192, 24863, 65292, 35753, 20154, 25417, 25720, 19981, 36879, 12290]"

definition villager_name :: pystr where
  \<comment> \<open>service_character.py, line 106\<close>
  "villager_name =
     [26449, 27665]"

definition villager_personality :: pystr where
  \<comment> \<open>service_character.py, line 107\<close>
  "villager_personality =
     [26420, 23454, 30340, 26449, 27665, 65292, 23545, 26449, 24196, 29983, 27963, 38750,
      24120, 29087, 24713, 12290, 20182, 20204, 21220, 21171, 21892, 33391, 65292, 20294,
      23545, 22806, 26469, 32773, 26377, 20123, 35880, 24910, 12290, 35828, 35805, 26420,
      23454, 26080, 21326, 12290]"

definition fisherman_name :: pystr where
  \<comment> \<open>service_character.py, line 115\<close>
  "fisherman_name =
     [27827, 36793, 28180, 22827]"

definition fisherman_personality :: pystr where
  \<comment> \<open>service_character.py, line 116\<close>
  "fisherman_personality =
     [23433, 38745, 30340, 28180, 22827, 65292, 21916, 27426, 29420, 33258, 22312, 27827,
      36793, 38035, 40060, 12290, 20182, 23545, 27827, 27969, 21644, 21608, 22260, 30340,
      33258, 28982, 29615, 22659, 38750, 24120, 20102, 35299, 65292, 35828, 35805, 31616,
      27905, 20294, 23500, 26377, 26234, 24935, 12290]"

text \<open>
  \<^verbatim>\<open>CharacterService\<close>.  Its dictionary \<^verbatim>\<open>characters\<close> is an association list in
  insertion order, with one entry per key; \<open>map_of\<close> is the lookup and \<open>AList.update\<close>
  the assignment to a key.
\<close>

record CharacterService =
  cs_characters :: "(pystr \<times> Character) list"

definition initialize_characters :: "Config \<Rightarrow> CharacterService" where
  "initialize_characters cfg =
     \<lparr> cs_characters =
         [ (ascii ''elder'',
            Character_init cfg (ascii ''elder'') elder_name elder_personality
              (ascii ''village_center'') (Some 0.7)),
           (ascii ''shopkeeper'',
            Character_init cfg (ascii ''shopkeeper'') shopkeeper_name shopkeeper_personality
              (ascii ''village_shop'') (Some 0.6)),
           (ascii ''traveler'',
            Character_init cfg (ascii ''traveler'') traveler_name traveler_personality
              (ascii ''forest_entrance'') (Some 0.5)),
           (ascii ''villager'',
            Character_init cfg (ascii ''villager'') villager_name villager_personality
              (ascii ''village_house'') (Some 0.5)),
           (ascii ''fisherman'',
            Character_init cfg (ascii ''fisherman'') fisherman_name fisherman_personality
              (ascii ''river_bank'') (Some 0.6)) ] \<rparr>"

definition get_character :: "CharacterService \<Rightarrow> pystr \<Rightarrow> Character option" where
  "get_character cs cid = map_of (cs_characters cs) cid"

definition get_all_characters :: "CharacterService \<Rightarrow> (pystr \<times> Character) list" where
  "get_all_characters cs = cs_characters cs"

definition update_character_mood :: "CharacterService \<Rightarrow> pystr \<Rightarrow> real \<Rightarrow> CharacterService" where
  "update_character_mood cs cid new_mood =
     (case map_of (cs_characters cs) cid of
        None \<Rightarrow> cs
      | Some c \<Rightarrow>
          cs\<lparr> cs_characters := AList.update cid (update_mood c new_mood) (cs_characters cs) \<rparr>)"

text \<open>\<^verbatim>\<open>reset_all_moods\<close>: the loop over \<^verbatim>\<open>self.characters.values()\<close> assigns both fields
  of every character.\<close>

definition reset_all_moods :: "Config \<Rightarrow> CharacterService \<Rightarrow> CharacterService" where
  "reset_all_moods cfg cs =
     (let default_mood' = get_default_mood cfg
      in cs\<lparr> cs_characters :=
               map (\<lambda>(cid, character).
                      (cid, character\<lparr> mood := default_mood', conversation_history := [] \<rparr>))
                   (cs_characters cs) \<rparr>)"

section \<open>The world (service\_world.py)\<close>

text \<open>The class \<^verbatim>\<open>Location\<close>; \<^verbatim>\<open>exits\<close> is a dictionary from direction to location
  identifier, kept in insertion order.\<close>

record Location =
  name :: pystr
  description :: pystr
  exits :: "(pystr \<times> pystr) list"
  characters :: "pystr list"

definition Location_init :: "pystr \<Rightarrow> pystr \<Rightarrow> (pystr \<times> pystr) list option \<Rightarrow> Location" where
  "Location_init nm descr ex =
     \<lparr> name = nm,
       description = descr,
       exits = (case ex of None \<Rightarrow> [] | Some e \<Rightarrow> if e = [] then [] else e),
       characters = [] \<rparr>"

definition add_character :: "Location \<Rightarrow> pystr \<Rightarrow> Location" where
  "add_character l cid =
     (if cid \<notin> set (characters l) then l\<lparr> characters := characters l @ [cid] \<rparr> else l)"

definition remove_character :: "Location \<Rightarrow> pystr \<Rightarrow> Location" where
  "remove_character l cid =
     (if cid \<in> set (characters l) then l\<lparr> characters := remove1 cid (characters l) \<rparr> else l)"

text \<open>The Chinese names of the six directions, as in the dictionaries \<^verbatim>\<open>direction_names\<close>
  and \<^verbatim>\<open>direction_map\<close>: U+5317 U+65B9 is "north side", and so on.\<close>

definition zh_north_side :: pystr where
  \<comment> \<open>service_world.py, line 34\<close>
  "zh_north_side =
     [21271, 26041]"

definition zh_south_side :: pystr where
  \<comment> \<open>service_world.py, line 34\<close>
  "zh_south_side =
     [21335, 26041]"

definition zh_east_side :: pystr where
  \<comment> \<open>service_world.py, line 35\<close>
  "zh_east_side =
     [19996, 26041]"

definition zh_west_side :: pystr where
  \<comment> \<open>service_world.py, line 35\<close>
  "zh_west_side =
     [35199, 26041]"

definition zh_up_side :: pystr where
  \<comment> \<open>service_world.py, line 36\<close>
  "zh_up_side =
     [19978, 26041]"

definition zh_down_side :: pystr where
  \<comment> \<open>service_world.py, line 36\<close>
  "zh_down_side =
     [19979, 26041]"

definition zh_north :: pystr where
  \<comment> \<open>service_world.py, line 140\<close>
  "zh_north =
     [21271]"

definition zh_south :: pystr where
  \<comment> \<open>service_world.py, line 140\<close>
  "zh_south =
     [21335]"

definition zh_east :: pystr where
  \<comment> \<open>service_world.py, line 140\<close>
  "zh_east =
     [19996]"

definition zh_west :: pystr where
  \<comment> \<open>service_world.py, line 140\<close>
  "zh_west =
     [35199]"

definition zh_up :: pystr where
  \<comment> \<open>service_world.py, line 141\<close>
  "zh_up =
     [19978]"

definition zh_down :: pystr where
  \<comment> \<open>service_world.py, line 141\<close>
  "zh_down =
     [19979]"

definition direction_names :: "(pystr \<times> pystr) list" where
  "direction_names =
     [ (ascii ''north'', zh_north_side), (ascii ''south'', zh_south_side),
       (ascii ''east'', zh_east_side), (ascii ''west'', zh_west_side),
       (ascii ''up'', zh_up_side), (ascii ''down'', zh_down_side) ]"

text \<open>\<^verbatim>\<open>d.get(k, default)\<close> on a dictionary.\<close>

definition dict_get :: "('k \<times> 'v) list \<Rightarrow> 'k \<Rightarrow> 'v \<Rightarrow> 'v" where
  "dict_get d k dflt = (case map_of d k of None \<Rightarrow> dflt | Some v \<Rightarrow> v)"

definition no_exits_text :: pystr where
  \<comment> \<open>service_world.py, line 30\<close>
  "no_exits_text =
     [36825, 37324, 27809, 26377, 26126, 26174, 30340, 20986, 36335, 12290]"

definition can_go_to_text :: pystr where
  \<comment> \<open>service_world.py, line 43\<close>
  "can_go_to_text =
     [21487, 20197, 21069, 24448, 58, 32]"

definition get_exits_description :: "Location \<Rightarrow> pystr" where
  "get_exits_description l =
     (if exits l = [] then no_exits_text
      else can_go_to_text @
           join (ascii '', '') (map (\<lambda>direction. dict_get direction_names direction direction)
                                    (map fst (exits l))))"

text \<open>The names and descriptions of the six locations.\<close>

definition village_center_name :: pystr where
  \<comment> \<open>service_world.py, line 58\<close>
  "village_center_name =
     [26449, 24196, 20013, 24515]"

definition village_center_description :: pystr where
  \<comment> \<open>service_world.py, line 59\<close>
  "village_center_description =
     [36825, 37324, 26159, 19968, 20010, 23425, 38745, 30340, 23567, 26449, 24196, 30340,
      20013, 24515, 12290, 21476, 32769, 30340, 30707, 20117, 22352, 33853, 22312, 24191,
      22330, 20013, 22830, 65292, 21608, 22260, 26159, 20960, 24231, 26420, 32032, 30340,
      25151, 23627, 12290, 24494, 39118, 36731, 25282, 65292, 24102, 26469, 36828, 23665,
      30340, 28165, 39321, 12290]"

definition forest_entrance_name :: pystr where
  \<comment> \<open>service_world.py, line 70\<close>
  "forest_entrance_name =
     [26862, 26519, 20837, 21475]"

definition forest_entrance_description :: pystr where
  \<comment> \<open>service_world.py, line 71\<close>
  "forest_entrance_description =
     [33538, 23494, 30340, 26862, 26519, 22312, 20320, 38754, 21069, 23637, 24320, 65292,
      39640, 22823, 30340, 26641, 26408, 36974, 22825, 34109, 26085, 12290, 38451, 20809,
      36879, 36807, 26641, 21494, 27922, 19979, 26001, 39539, 30340, 20809, 24433, 65292,
      31354, 27668, 20013, 24357, 28459, 30528, 27877, 22303, 21644, 38738, 33609, 30340,
      39321, 21619, 12290]"

definition deep_forest_name :: pystr where
  \<comment> \<open>service_world.py, line 80\<close>
  "deep_forest_name =
     [28145, 26519]"

definition deep_forest_description :: pystr where
  \<comment> \<open>service_world.py, line 81\<close>
  "deep_forest_description =
     [20320, 28145, 20837, 26862, 26519, 65292, 21608, 22260, 21464, 24471, 26356, 21152,
      24189, 26263, 31070, 31192, 12290, 21476, 32769, 30340, 26641, 26408, 20223, 20315,
      22312, 31363, 31363, 31169, 35821, 65292, 36828, 22788, 20256, 26469, 19981, 26126,
      30340, 22768, 21709, 12290, 36825, 37324, 20805, 28385, 20102, 26410, 30693, 30340,
      21361, 38505, 21644, 26426, 36935, 12290]"

definition village_shop_name :: pystr where
  \<comment> \<open>service_world.py, line 89\<close>
  "village_shop_name =
     [26449, 24196, 21830, 24215]"

definition village_shop_description :: pystr where
  \<comment> \<open>service_world.py, line 90\<close>
  "village_shop_description =
     [36825, 26159, 19968, 38388, 28201, 39336, 30340, 23567, 21830, 24215, 65292, 36135,
      26550, 19978, 25670, 28385, 20102, 21508, 31181, 26085, 29992, 21697, 21644, 20882,
      38505, 29992, 20855, 12290, 24215, 20027, 26159, 19968, 20301, 21644, 34108, 30340,
      32769, 20154, 65292, 24635, 26159, 20048, 20110, 21161, 20154, 12290]"

definition village_house_name :: pystr where
  \<comment> \<open>service_world.py, line 98\<close>
  "village_house_name =
     [26449, 27665, 25151, 23627]"

definition village_house_description :: pystr where
  \<comment> \<open>service_world.py, line 99\<close>
  "village_house_description =
     [36825, 26159, 19968, 24231, 20856, 22411, 30340, 26449, 24196, 25151, 23627, 65292,
      26408, 21046, 30340, 22681, 22721, 21644, 33541, 33609, 23627, 39030, 12290, 25151,
      23627, 34429, 28982, 31616, 26420, 65292, 20294, 25910, 25342, 24471, 24456, 25972,
      27905, 65292, 36879, 38706, 20986, 20027, 20154, 30340, 21220, 21171, 12290]"

definition river_bank_name :: pystr where
  \<comment> \<open>service_world.py, line 107\<close>
  "river_bank_name =
     [27827, 23736]"

definition river_bank_description :: pystr where
  \<comment> \<open>service_world.py, line 108\<close>
  "river_bank_description =
     [28165, 28552, 30340, 23567, 27827, 32531, 32531, 27969, 28108, 65292, 27827, 27700,
      20498, 26144, 30528, 22825, 31354, 30340, 34013, 33394, 12290, 27827, 23736, 36793,
      38271, 28385, 20102, 33446, 33479, 21644, 37326, 33457, 65292, 20598, 23572, 26377,
      23567, 40060, 36291, 20986, 27700, 38754, 65292, 28608, 36215, 38453, 38453, 28063,
      28458, 12290]"

text \<open>The class \<^verbatim>\<open>WorldService\<close>.\<close>

record WorldService =
  locations :: "(pystr \<times> Location) list"
  current_location :: pystr

definition WorldService_init :: WorldService where
  "WorldService_init =
     \<lparr> locations =
         [ (ascii ''village_center'',
            Location_init village_center_name village_center_description
              (Some [ (ascii ''north'', ascii ''forest_entrance''),
                      (ascii ''east'', ascii ''village_shop''),
                      (ascii ''west'', ascii ''village_house''),
                      (ascii ''south'', ascii ''river_bank'') ])),
           (ascii ''forest_entrance'',
            Location_init forest_entrance_name forest_entrance_description
              (Some [ (ascii ''south'', ascii ''village_center''),
                      (ascii ''north'', ascii ''deep_forest'') ])),
           (ascii ''deep_forest'',
            Location_init deep_forest_name deep_forest_description
              (Some [ (ascii ''south'', ascii ''forest_entrance'') ])),
           (ascii ''village_shop'',
            Location_init village_shop_name village_shop_description
              (Some [ (ascii ''west'', ascii ''village_center'') ])),
           (ascii ''village_house'',
            Location_init village_house_name village_house_description
              (Some [ (ascii ''east'', ascii ''village_center'') ])),
           (ascii ''river_bank'',
            Location_init river_bank_name river_bank_description
              (Some [ (ascii ''north'', ascii ''village_center'') ])) ],
       current_location = ascii ''village_center'' \<rparr>"

text \<open>\<^verbatim>\<open>self.locations.get(self.current_location)\<close>: \<open>None\<close> when the pointer names no
  location.\<close>

definition get_current_location :: "WorldService \<Rightarrow> Location option" where
  "get_current_location ws = map_of (locations ws) (current_location ws)"

definition lost_text :: pystr where
  \<comment> \<open>service_world.py, line 122\<close>
  "lost_text =
     [20320, 20284, 20046, 36855, 22833, 22312, 20102, 26410, 30693, 30340, 22320, 26041,
      46, 46, 46]"

definition pin_text :: pystr where
  \<comment> \<open>service_world.py, line 124\<close>
  "pin_text =
     [128205, 32]"

definition people_here_text :: pystr where
  \<comment> \<open>service_world.py, line 128\<close>
  "people_here_text =
     [10, 10, 128101, 32, 36825, 37324, 26377, 58, 32]"

definition get_location_description :: "WorldService \<Rightarrow> pystr" where
  "get_location_description ws =
     (case get_current_location ws of
        None \<Rightarrow> lost_text
      | Some l \<Rightarrow>
          (let descr = pin_text @ name l @ [10, 10] @ description l @ [10, 10] @
                       get_exits_description l
           in if characters l \<noteq> []
              then descr @ people_here_text @ join (ascii '', '') (characters l)
              else descr))"

definition position_unknown_text :: pystr where
  \<comment> \<open>service_world.py, line 136\<close>
  "position_unknown_text =
     [24403, 21069, 20301, 32622, 26410, 30693, 65292, 26080, 27861, 31227, 21160, 12290]"

definition cannot_move_prefix :: pystr where
  \<comment> \<open>service_world.py, line 149\<close>
  "cannot_move_prefix =
     [26080, 27861, 21521]"

definition cannot_move_suffix :: pystr where
  \<comment> \<open>service_world.py, line 149\<close>
  "cannot_move_suffix =
     [31227, 21160, 65292, 37027, 37324, 27809, 26377, 36335, 12290]"

definition target_prefix :: pystr where
  \<comment> \<open>service_world.py, line 153\<close>
  "target_prefix =
     [30446, 26631, 20301, 32622, 32]"

definition target_suffix :: pystr where
  \<comment> \<open>service_world.py, line 153\<close>
  "target_suffix =
     [32, 19981, 23384, 22312, 12290]"

definition moved_prefix :: pystr where
  \<comment> \<open>service_world.py, line 156\<close>
  "moved_prefix =
     [20320, 21521]"

definition moved_suffix :: pystr where
  \<comment> \<open>service_world.py, line 156\<close>
  "moved_suffix =
     [31227, 21160, 20102, 12290]"

definition direction_map :: "(pystr \<times> pystr) list" where
  "direction_map =
     [ (zh_north, ascii ''north''), (zh_south, ascii ''south''),
       (zh_east, ascii ''east''), (zh_west, ascii ''west''),
       (zh_up, ascii ''up''), (zh_down, ascii ''down''),
       (zh_north_side, ascii ''north''), (zh_south_side, ascii ''south''),
       (zh_east_side, ascii ''east''), (zh_west_side, ascii ''west''),
       (zh_up_side, ascii ''up''), (zh_down_side, ascii ''down'') ]"

text \<open>
  \<^verbatim>\<open>move_to\<close> returns the pair \<^verbatim>\<open>(success, message)\<close> and assigns the pointer on success;
  the model returns the world with it.
\<close>

definition move_to :: "WorldService \<Rightarrow> pystr \<Rightarrow> WorldService \<times> bool \<times> pystr" where
  "move_to ws direction =
     (case get_current_location ws of
        None \<Rightarrow> (ws, False, position_unknown_text)
      | Some current_loc \<Rightarrow>
          (let normalized_direction = dict_get direction_map direction direction
           in case map_of (exits current_loc) normalized_direction of
                None \<Rightarrow> (ws, False, cannot_move_prefix @ direction @ cannot_move_suffix)
              | Some target_location \<Rightarrow>
                  if map_of (locations ws) target_location = None
                  then (ws, False, target_prefix @ target_location @ target_suffix)
                  else (ws\<lparr> current_location := target_location \<rparr>,
                        True, moved_prefix @ direction @ moved_suffix)))"

definition get_available_directions :: "WorldService \<Rightarrow> pystr list" where
  "get_available_directions ws =
     (case get_current_location ws of None \<Rightarrow> [] | Some current_loc \<Rightarrow> map fst (exits current_loc))"

text \<open>The optional argument \<^verbatim>\<open>location_id: str = None\<close> is an \<open>option\<close>.\<close>

definition add_character_to_location ::
  "WorldService \<Rightarrow> pystr \<Rightarrow> pystr option \<Rightarrow> WorldService" where
  "add_character_to_location ws cid location_id =
     (let lid = (case location_id of None \<Rightarrow> current_location ws | Some l \<Rightarrow> l)
      in case map_of (locations ws) lid of
           None \<Rightarrow> ws
         | Some l \<Rightarrow> ws\<lparr> locations := AList.update lid (add_character l cid) (locations ws) \<rparr>)"

definition remove_character_from_location ::
  "WorldService \<Rightarrow> pystr \<Rightarrow> pystr option \<Rightarrow> WorldService" where
  "remove_character_from_location ws cid location_id =
     (let lid = (case location_id of None \<Rightarrow> current_location ws | Some l \<Rightarrow> l)
      in case map_of (locations ws) lid of
           None \<Rightarrow> ws
         | Some l \<Rightarrow> ws\<lparr> locations := AList.update lid (remove_character l cid) (locations ws) \<rparr>)"

definition get_characters_in_current_location :: "WorldService \<Rightarrow> pystr list" where
  "get_characters_in_current_location ws =
     (case get_current_location ws of None \<Rightarrow> [] | Some current_loc \<Rightarrow> characters current_loc)"

definition reset_to_start :: "WorldService \<Rightarrow> WorldService" where
  "reset_to_start ws = ws\<lparr> current_location := ascii ''village_center'' \<rparr>"

section \<open>The dialogue adapter (service\_ai.py)\<close>

text \<open>An entry of a session history: the dictionary with the keys \<^verbatim>\<open>role\<close> and
  \<^verbatim>\<open>content\<close>.  The content of an assistant entry is the \<^verbatim>\<open>msg\<close> value of the reply.\<close>

record Message =
  role :: pystr
  content :: json

text \<open>
  The class \<^verbatim>\<open>AIService\<close>.  \<open>client\<close> tells whether \<^verbatim>\<open>self.client\<close> is a client object
  (\<open>True\<close>) or \<^verbatim>\<open>None\<close>; \<^verbatim>\<open>_initialize_client\<close> sets it once, depending on whether the
  constructor of the client raises.  \<open>session_histories\<close> is the dictionary from session
  key to the list of messages.
\<close>

record AIService =
  client :: bool
  session_histories :: "pystr \<rightharpoonup> Message list"

definition AIService_init :: "bool \<Rightarrow> AIService" where
  "AIService_init client_ok = \<lparr> client = client_ok, session_histories = Map.empty \<rparr>"

text \<open>\<^verbatim>\<open>_get_session_history\<close> stores an empty list under a new key and returns the stored
  list.\<close>

definition get_session_history :: "AIService \<Rightarrow> pystr \<Rightarrow> AIService \<times> Message list" where
  "get_session_history a session_id =
     (case session_histories a session_id of
        None \<Rightarrow> (a\<lparr> session_histories := (session_histories a)(session_id \<mapsto> []) \<rparr>, [])
      | Some h \<Rightarrow> (a, h))"

definition clear_session_history :: "AIService \<Rightarrow> pystr \<Rightarrow> AIService" where
  "clear_session_history a session_id =
     a\<lparr> session_histories := (session_histories a)(session_id \<mapsto> []) \<rparr>"

definition clear_character_history :: "AIService \<Rightarrow> pystr \<Rightarrow> AIService" where
  "clear_character_history a session_id = clear_session_history a session_id"

text \<open>The pieces of the f-string of \<^verbatim>\<open>build_character_prompt\<close>, in order, and the three
  mood levels.\<close>

definition mood_level_good :: pystr where
  \<comment> \<open>service_ai.py, line 56\<close>
  "mood_level_good =
     [20248, 31168]"

definition mood_level_fair :: pystr where
  \<comment> \<open>service_ai.py, line 56\<close>
  "mood_level_fair =
     [33391, 22909]"

definition mood_level_poor :: pystr where
  \<comment> \<open>service_ai.py, line 56\<close>
  "mood_level_poor =
     [24046]"

definition prompt_1 :: pystr where
  \<comment> \<open>service_ai.py, line 58\<close>
  "prompt_1 =
     [20320, 29616, 22312, 25198, 28436, 28216, 25103, 35282, 33394, 12304]"

definition prompt_2 :: pystr where
  \<comment> \<open>service_ai.py, line 58\<close>
  "prompt_2 =
     [12305, 65292, 24403, 21069, 24515, 24773, 20540, 61]"

definition prompt_3 :: pystr where
  \<comment> \<open>service_ai.py, line 58\<close>
  "prompt_3 =
     [65288]"

definition prompt_4 :: pystr where
  \<comment> \<open>service_ai.py, line 58\<close>
  "prompt_4 =
     [65289, 12290, 10, 10, 35282, 33394, 35774, 23450, 58, 32]"

definition prompt_5 :: pystr where
  \<comment> \<open>service_ai.py, line 58\<close>
  "prompt_5 =
     [10, 10, 24403, 21069, 20301, 32622, 58, 32]"

definition prompt_6 :: pystr where
  \<comment> \<open>service_ai.py, line 58\<close>
  "prompt_6 =
     [10, 10, 20320, 38656, 35201, 58, 10, 45, 32, 22987, 32456, 20445, 25345, 35282, 33394,
      36523, 20221, 65292, 20197]"

definition prompt_7 :: pystr where
  \<comment> \<open>service_ai.py, line 58\<close>
  "prompt_7 =
     [30340, 36523, 20221, 22238, 24212, 10, 45, 32, 26681, 25454, 24515, 24773, 20540,
      35843, 25972, 35821, 27668, 65306, 36234, 25509, 36817, 32, 48, 32, 35821, 27668,
      36234, 24046, 65292, 36234, 25509, 36817, 32, 49, 32, 36234, 21451, 21892, 10, 45, 32,
      20445, 25345, 23545, 35805, 30340, 36259, 21619, 24615, 21644, 21560, 24341, 21147,
      10, 45, 32, 22312, 36866, 24403, 30340, 26102, 20505, 24110, 21161, 29609, 23478, 10,
      45, 32, 22238, 22797, 20445, 25345, 22312, 32]"

definition prompt_8 :: pystr where
  \<comment> \<open>service_ai.py, line 58\<close>
  "prompt_8 =
     [32, 23383, 31526, 20197, 20869, 10, 45, 32, 20351, 29992, 20013, 25991, 22238, 22797,
      10, 45, 32, 21482, 35752, 35770, 19982, 24403, 21069, 28216, 25103, 22330, 26223,
      12289, 21095, 24773, 30456, 20851, 30340, 20869, 23481, 10, 45, 32, 22914, 26524,
      29609, 23478, 25552, 20986, 19982, 28216, 25103, 26080, 20851, 30340, 38382, 39064,
      65292, 35831, 31036, 35980, 22320, 24341, 23548, 22238, 28216, 25103, 20869, 23481,
      10, 10, 35831, 20005, 26684, 25353, 29031, 74, 83, 79, 78, 26684, 24335, 36820, 22238,
      65306, 10, 123, 10, 32, 32, 34, 109, 115, 103, 34, 58, 32, 34, 20320, 35201, 35828,
      30340, 35805, 34, 44, 10, 32, 32, 34, 109, 111, 111, 100, 34, 58, 32, 26032, 30340,
      24515, 24773, 20540, 65288, 48, 46, 48, 45, 49, 46, 48, 32, 20043, 38388, 30340,
      25968, 23383, 65289, 10, 125, 10, 10, 37325, 35201, 65306, 32477, 19981, 36879, 38706,
      20320, 26159, 32, 65, 73, 32, 25110, 20219, 20309, 25216, 26415, 32454, 33410, 65292,
      22987, 32456, 20445, 25345, 35282, 33394, 25198, 28436, 12290]"

definition build_character_prompt ::
  "pylib \<Rightarrow> Config \<Rightarrow> pystr \<Rightarrow> pystr \<Rightarrow> pystr \<Rightarrow> real \<Rightarrow> pystr" where
  "build_character_prompt lib cfg character_name character_personality current_loc md =
     (let mood_level = (if md \<ge> 0.7 then mood_level_good
                        else if md \<ge> 0.4 then mood_level_fair
                        else mood_level_poor)
      in prompt_1 @ character_name @ prompt_2 @ format_2f lib md @ prompt_3 @ mood_level @
         prompt_4 @ character_personality @ prompt_5 @ current_loc @ prompt_6 @
         character_name @ prompt_7 @ py_str lib (JInt (get_max_response_length cfg)) @
         prompt_8)"

text \<open>
  The outcome of the awaited call \<^verbatim>\<open>self.client.chat.completions.create(...)\<close>: it raises,
  or it returns a response, of which the code reads \<^verbatim>\<open>choices\<close> and the
  \<^verbatim>\<open>message.content\<close> of each choice (\<open>None\<close> when the content is \<^verbatim>\<open>None\<close>).
\<close>

datatype api_result =
    Raises pyerr
  | Completion "pystr option list"

text \<open>What the function returns: the dictionary with the keys \<^verbatim>\<open>msg\<close>, \<^verbatim>\<open>mood\<close>,
  \<^verbatim>\<open>status\<close> and, on the error paths, \<^verbatim>\<open>error\<close>.\<close>

record Response =
  msg :: json
  resp_mood :: real
  status :: pystr
  error :: "pystr option"

text \<open>\<^verbatim>\<open>k in v\<close>, \<^verbatim>\<open>v.get(k, d)\<close>, \<^verbatim>\<open>v[k]\<close> and \<^verbatim>\<open>float(v)\<close> on a value that
  \<^verbatim>\<open>json.loads\<close> returned, with the exception Python raises on the types that do not
  support the operation.  An integer is too large for a float when it rounds to
  \<open>2 ^ 1024\<close> or beyond.\<close>

fun py_in :: "pystr \<Rightarrow> json \<Rightarrow> pyerr + bool" where
  "py_in k (JObj kv) = Inr (map_of kv k \<noteq> None)"
| "py_in k (JArr xs) = Inr (JStr k \<in> set xs)"
| "py_in k (JStr s) = Inr (contains k s)"
| "py_in k _ = Inl TypeError"

fun py_get :: "json \<Rightarrow> pystr \<Rightarrow> json \<Rightarrow> pyerr + json" where
  "py_get (JObj kv) k d = Inr (dict_get kv k d)"
| "py_get _ k d = Inl AttributeError"

fun py_subscript :: "json \<Rightarrow> pystr \<Rightarrow> pyerr + json" where
  "py_subscript (JObj kv) k = (case map_of kv k of None \<Rightarrow> Inl KeyError | Some v \<Rightarrow> Inr v)"
| "py_subscript _ k = Inl TypeError"

fun py_float :: "pylib \<Rightarrow> json \<Rightarrow> pyerr + real" where
  "py_float lib (JFloat r) = Inr r"
| "py_float lib (JInt i) =
     (if \<bar>i\<bar> \<ge> 2 ^ 1024 - 2 ^ 970 then Inl OverflowError else Inr (of_int i))"
| "py_float lib (JBool b) = Inr (if b then 1 else 0)"
| "py_float lib (JStr s) = (case float_of_str lib s of None \<Rightarrow> Inl ValueError | Some r \<Rightarrow> Inr r)"
| "py_float lib _ = Inl TypeError"

text \<open>Lines 133 to 136: the Markdown fence markers are cut off.\<close>

definition strip_fences :: "pystr \<Rightarrow> pystr" where
  "strip_fences content0 =
     (let content1 = (if startswith content0 (ascii ''```json'') then drop 7 content0 else content0)
      in if endswith content1 (ascii ''```'') then take (length content1 - 3) content1 else content1)"

text \<open>
  Lines 138 to 146, the part of the inner \<^verbatim>\<open>try\<close> block that can raise: parsing, the
  check for \<^verbatim>\<open>msg\<close>, and the new mood.  The result is the exception, or the \<^verbatim>\<open>msg\<close> value
  with the clamped mood.
\<close>

definition parse_reply :: "pylib \<Rightarrow> pystr \<Rightarrow> real \<Rightarrow> pyerr + json \<times> real" where
  "parse_reply lib content1 md =
     (case json_loads lib content1 of
        None \<Rightarrow> Inl JSONDecodeError
      | Some ai_response \<Rightarrow>
          (case py_in (ascii ''msg'') ai_response of
             Inl e \<Rightarrow> Inl e
           | Inr False \<Rightarrow> Inl ValueError
           | Inr True \<Rightarrow>
               (case py_get ai_response (ascii ''mood'') (JFloat md) of
                  Inl e \<Rightarrow> Inl e
                | Inr v \<Rightarrow>
                    (case py_float lib v of
                       Inl e \<Rightarrow> Inl e
                     | Inr new_mood0 \<Rightarrow>
                         (let new_mood = max 0 (min 1 new_mood0)
                          in case py_subscript ai_response (ascii ''msg'') of
                               Inl e \<Rightarrow> Inl e
                             | Inr m \<Rightarrow> Inr (m, new_mood))))))"

text \<open>Lines 125 to 128: the content of the first choice, stripped; an empty response
  raises.\<close>

definition empty_response_text :: pystr where
  \<comment> \<open>service_ai.py, line 126\<close>
  "empty_response_text =
     [65, 73, 32, 36820, 22238, 31354, 21709, 24212]"

definition no_client_msg :: pystr where
  \<comment> \<open>service_ai.py, line 90\<close>
  "no_client_msg =
     [30475, 36215, 26469, 22312, 24605, 32771, 20160, 20040, 65292, 84, 65, 32, 20284,
      20046, 19981, 24819, 21644, 20320, 35828, 35805, 12290]"

definition no_client_error :: pystr where
  \<comment> \<open>service_ai.py, line 93\<close>
  "no_client_error =
     [65, 73, 32, 23458, 25143, 31471, 26410, 21021, 22987, 21270]"

definition model_unavailable_msg :: pystr where
  \<comment> \<open>service_ai.py, line 178\<close>
  "model_unavailable_msg =
     [27169, 22411, 26242, 26102, 19981, 21487, 29992, 65292, 35831, 31245, 21518, 20877,
      35797, 12290]"

definition auth_failed_msg :: pystr where
  \<comment> \<open>service_ai.py, line 180\<close>
  "auth_failed_msg =
     [65, 80, 73, 32, 32, 35748, 35777, 22833, 36133, 65292, 35831, 26816, 26597, 37197,
      32622, 12290]"

definition quota_msg :: pystr where
  \<comment> \<open>service_ai.py, line 182\<close>
  "quota_msg =
     [65, 80, 73, 32, 37197, 39069, 24050, 29992, 23436, 65292, 35831, 31245, 21518, 20877,
      35797, 12290]"

definition thinking_msg :: pystr where
  \<comment> \<open>service_ai.py, line 184\<close>
  "thinking_msg =
     [32, 20284, 20046, 22312, 24605, 32771, 20160, 20040, 65292, 84, 65, 32, 26242, 26102,
      26080, 27861, 22238, 31572, 20320, 30340, 38382, 39064, 12290]"

definition confused_msg :: pystr where
  \<comment> \<open>service_ai.py, line 201\<close>
  "confused_msg =
     [32, 30475, 36215, 26469, 26377, 20123, 22256, 24785, 65292, 19981, 22914, 31561, 32,
      84, 65, 32, 28040, 21270, 19968, 19979, 20320, 35828, 20102, 20160, 20040, 65311]"

definition response_content :: "api_result \<Rightarrow> pyerr + pystr" where
  "response_content api =
     (case api of
        Raises e \<Rightarrow> Inl e
      | Completion choices \<Rightarrow>
          (case choices of
             [] \<Rightarrow> Inl (Exception empty_response_text)
           | c # _ \<Rightarrow>
               (case c of
                  None \<Rightarrow> Inl (Exception empty_response_text)
                | Some s \<Rightarrow> if s = [] then Inl (Exception empty_response_text) else Inr (strip s))))"

text \<open>The two outer handlers, lines 175 to 205.\<close>

definition error_response :: "pylib \<Rightarrow> pystr \<Rightarrow> real \<Rightarrow> pyerr \<Rightarrow> Response" where
  "error_response lib character_name md e =
     (case e of
        OpenAIError s \<Rightarrow>
          (let error_msg = str_lower lib s;
               fallback_msg =
                 (if contains (ascii ''404'') error_msg \<or> contains (ascii ''not found'') error_msg
                  then model_unavailable_msg
                  else if contains (ascii ''401'') error_msg \<or> contains (ascii ''403'') error_msg
                  then auth_failed_msg
                  else if contains (ascii ''quota'') error_msg \<or> contains (ascii ''limit'') error_msg
                  then quota_msg
                  else character_name @ thinking_msg)
           in \<lparr> msg = JStr fallback_msg, resp_mood = md, status = ascii ''error'',
                error = Some s \<rparr>)
      | _ \<Rightarrow>
          \<lparr> msg = JStr (character_name @ confused_msg), resp_mood = md,
            status = ascii ''error'', error = Some (str_of_exn lib e) \<rparr>)"

text \<open>Lines 106 to 109: the system message is inserted in front of the history, or the
  content of the first entry is overwritten when that entry has the role \<^verbatim>\<open>system\<close>.\<close>

definition put_system_prompt :: "Message list \<Rightarrow> pystr \<Rightarrow> Message list" where
  "put_system_prompt h0 system_prompt =
     (if h0 = [] \<or> role (h0 ! 0) \<noteq> ascii ''system''
      then \<lparr> role = ascii ''system'', content = JStr system_prompt \<rparr> # h0
      else h0[0 := (h0 ! 0)\<lparr> content := JStr system_prompt \<rparr>])"

text \<open>
  \<^verbatim>\<open>get_character_response\<close>.  The name \<^verbatim>\<open>history\<close> is bound to the list object stored in
  \<^verbatim>\<open>session_histories\<close>, so \<^verbatim>\<open>insert\<close>, the assignment to \<^verbatim>\<open>history[0]["content"]\<close> and
  \<^verbatim>\<open>append\<close> change the stored list: \<open>h1\<close>, \<open>h2\<close> and \<open>h3\<close> are its successive
  contents, and the contents at the moment the function leaves are what the returned
  service stores.  The assignment \<^verbatim>\<open>history = [history[0]] + history[-19:]\<close> of line 153
  builds a new list and binds the local name to it; the name is not read again and
  the stored list object is not touched, so the new list is the unused \<open>history\<close> below.
\<close>

definition get_character_response ::
  "pylib \<Rightarrow> Config \<Rightarrow> AIService \<Rightarrow> pystr \<Rightarrow> pystr \<Rightarrow> pystr \<Rightarrow> pystr \<Rightarrow> real \<Rightarrow> pystr \<Rightarrow>
   api_result \<Rightarrow> AIService \<times> Response" where
  "get_character_response lib cfg a character_name character_personality player_message
     current_loc md session_id api =
     (if \<not> client a
      then (a, \<lparr> msg = JStr (character_name @ no_client_msg), resp_mood = md,
                 status = ascii ''error'', error = Some no_client_error \<rparr>)
      else
        (let system_prompt =
               build_character_prompt lib cfg character_name character_personality current_loc md;
             (a0, h0) = get_session_history a session_id;
             h1 = put_system_prompt h0 system_prompt;
             h2 = h1 @ [\<lparr> role = ascii ''user'', content = JStr player_message \<rparr>];
             stored = (\<lambda>h. a0\<lparr> session_histories := (session_histories a0)(session_id \<mapsto> h) \<rparr>)
         in case response_content api of
              Inl e \<Rightarrow> (stored h2, error_response lib character_name md e)
            | Inr content0 \<Rightarrow>
                (let content1 = strip_fences content0
                 in case parse_reply lib content1 md of
                      Inr (m, new_mood) \<Rightarrow>
                        (let h3 = h2 @ [\<lparr> role = ascii ''assistant'', content = m \<rparr>];
                             history = (if length h3 > 20 then [h3 ! 0] @ last_n 19 h3 else h3)
                         in (stored h3,
                             \<lparr> msg = m, resp_mood = new_mood, status = ascii ''success'',
                               error = None \<rparr>))
                    | Inl e \<Rightarrow>
                        if e = JSONDecodeError \<or> e = ValueError
                        then (stored (h2 @ [\<lparr> role = ascii ''assistant'', content = JStr content1 \<rparr>]),
                              \<lparr> msg = JStr content1, resp_mood = md,
                                status = ascii ''success_text'', error = None \<rparr>)
                        else (stored h2, error_response lib character_name md e))))"

definition get_session_info :: "AIService \<Rightarrow> pystr \<Rightarrow> AIService \<times> pystr \<times> nat \<times> bool" where
  "get_session_info a session_id =
     (let (a0, h) = get_session_history a session_id
      in (a0, session_id, length h, length h > 0 \<and> role (h ! 0) = ascii ''system''))"

section \<open>The command interpreter (service\_game.py)\<close>

text \<open>
  The dictionary \<^verbatim>\<open>game_state\<close> that the caller owns, with its four keys; an entry of its
  \<^verbatim>\<open>history\<close> has the keys \<^verbatim>\<open>type\<close> and \<^verbatim>\<open>content\<close>.
\<close>

record DisplayEntry =
  entry_type :: pystr
  entry_content :: pystr

record GameState =
  gs_current_location :: pystr
  player_name :: pystr
  history :: "DisplayEntry list"
  game_started :: bool

text \<open>
  The class \<^verbatim>\<open>GameService\<close>.  Every \<^verbatim>\<open>ConfigService()\<close> that the services construct
  loads the same configuration, which is the field \<open>config_service\<close>.
\<close>

record GameService =
  config_service :: Config
  world_service :: WorldService
  character_service :: CharacterService
  ai_service :: AIService

definition sync_character_locations :: "GameService \<Rightarrow> GameService" where
  "sync_character_locations g =
     g\<lparr> world_service :=
          foldl (\<lambda>ws (char_id, character).
                   add_character_to_location ws char_id (Some (location character)))
                (world_service g)
                (get_all_characters (character_service g)) \<rparr>"

definition GameService_init :: "Config \<Rightarrow> bool \<Rightarrow> GameService" where
  "GameService_init cfg client_ok =
     sync_character_locations
       \<lparr> config_service = cfg,
         world_service = WorldService_init,
         character_service = initialize_characters cfg,
         ai_service = AIService_init client_ok \<rparr>"

definition player_name_text :: pystr where
  \<comment> \<open>service_game.py, line 39\<close>
  "player_name_text =
     [20882, 38505, 32773]"

definition welcome_rest :: pystr where
  \<comment> \<open>service_game.py, line 62\<close>
  "welcome_rest =
     [33, 10, 10, 89, 111, 117, 32, 97, 114, 101, 32, 97, 32, 121, 111, 117, 110, 103, 32,
      97, 100, 118, 101, 110, 116, 117, 114, 101, 114, 32, 119, 104, 111, 32, 104, 97, 115,
      32, 106, 117, 115, 116, 32, 97, 114, 114, 105, 118, 101, 100, 32, 105, 110, 32, 97,
      32, 109, 121, 115, 116, 101, 114, 105, 111, 117, 115, 32, 114, 101, 97, 108, 109, 46,
      10, 69, 120, 112, 108, 111, 114, 101, 32, 116, 104, 105, 115, 32, 119, 111, 114, 108,
      100, 32, 97, 110, 100, 32, 99, 104, 97, 116, 32, 119, 105, 116, 104, 32, 65, 73, 45,
      100, 114, 105, 118, 101, 110, 32, 99, 104, 97, 114, 97, 99, 116, 101, 114, 115, 33,
      10, 10, 84, 105, 112, 58, 32, 84, 121, 112, 101, 32, 39, 104, 101, 108, 112, 39, 32,
      116, 111, 32, 115, 101, 101, 32, 97, 118, 97, 105, 108, 97, 98, 108, 101, 32, 99, 111,
      109, 109, 97, 110, 100, 115, 10, 84, 105, 112, 58, 32, 84, 121, 112, 101, 32, 39, 99,
      108, 101, 97, 114, 39, 32, 116, 111, 32, 99, 108, 101, 97, 114, 32, 116, 104, 101, 32,
      115, 99, 114, 101, 101, 110, 10, 10, 45, 45, 45]"

definition get_welcome_message :: "GameService \<Rightarrow> pystr" where
  "get_welcome_message g =
     ascii ''Welcome to '' @ get_game_title (config_service g) @ welcome_rest"

definition create_new_game :: "GameService \<Rightarrow> GameService \<times> GameState" where
  "create_new_game g =
     (let g1 = g\<lparr> world_service := reset_to_start (world_service g) \<rparr>;
          g2 = g1\<lparr> character_service :=
                      reset_all_moods (config_service g1) (character_service g1) \<rparr>;
          g3 = sync_character_locations g2;
          game_state = \<lparr> gs_current_location = current_location (world_service g3),
                         player_name = player_name_text,
                         history = [],
                         game_started = True \<rparr>;
          welcome_msg = get_welcome_message g3;
          game_state1 = game_state\<lparr> history := history game_state @
                          [\<lparr> entry_type = ascii ''system'', entry_content = welcome_msg \<rparr>] \<rparr>;
          location_desc = get_location_description (world_service g3);
          game_state2 = game_state1\<lparr> history := history game_state1 @
                          [\<lparr> entry_type = ascii ''system'', entry_content = location_desc \<rparr>] \<rparr>
      in (g3, game_state2))"

text \<open>The tokens that \<^verbatim>\<open>process_command\<close> (lines 110 to 112) hands to
  \<^verbatim>\<open>_handle_direction_command\<close>; the last two are U+5DE6 (left) and U+53F3 (right).\<close>

definition zh_left :: pystr where
  \<comment> \<open>service_game.py, line 111\<close>
  "zh_left =
     [24038]"

definition zh_right :: pystr where
  \<comment> \<open>service_game.py, line 111\<close>
  "zh_right =
     [21491]"

definition direction_actions :: "pystr list" where
  "direction_actions =
     [ ascii ''north'', ascii ''n'', ascii ''south'', ascii ''s'',
       ascii ''east'', ascii ''e'', ascii ''west'', ascii ''w'',
       zh_north, zh_south, zh_east, zh_west, zh_up, zh_down, zh_left, zh_right ]"

definition where_to_text :: pystr where
  \<comment> \<open>service_game.py, line 192\<close>
  "where_to_text =
     [21435, 21738, 37324, 65311, 21487, 29992, 26041, 21521, 58, 32]"

text \<open>\<^verbatim>\<open>_handle_move_command\<close>; its local dictionary \<^verbatim>\<open>direction_names\<close> has the entries of
  the one in service\_world.py.\<close>

definition handle_move_command ::
  "GameService \<Rightarrow> pystr list \<Rightarrow> GameState \<Rightarrow> GameService \<times> GameState \<times> pystr" where
  "handle_move_command g args game_state =
     (if args = []
      then (let directions = get_available_directions (world_service g);
                available = map (\<lambda>d. dict_get direction_names d d) directions
            in (g, game_state, where_to_text @ join (ascii '', '') available))
      else
        (let direction = args ! 0;
             (ws, success, message) = move_to (world_service g) direction
         in if success
            then (let g1 = g\<lparr> world_service := ws \<rparr>;
                      game_state1 = game_state\<lparr> gs_current_location :=
                                                   current_location (world_service g1) \<rparr>;
                      location_desc = get_location_description (world_service g1)
                  in (g1, game_state1, message @ [10, 10] @ location_desc))
            else (g\<lparr> world_service := ws \<rparr>, game_state, message)))"

definition handle_direction_command ::
  "GameService \<Rightarrow> pystr \<Rightarrow> GameState \<Rightarrow> GameService \<times> GameState \<times> pystr" where
  "handle_direction_command g direction game_state =
     handle_move_command g [direction] game_state"

definition talk_usage_text :: pystr where
  \<comment> \<open>service_game.py, line 213\<close>
  "talk_usage_text =
     [21644, 35841, 35828, 35805, 65311, 20351, 29992, 58, 32, 116, 97, 108, 107, 32, 60,
      35282, 33394, 73, 68, 62, 32, 60, 28040, 24687, 62, 10, 25110, 32773, 58, 32, 35828,
      32, 60, 35282, 33394, 73, 68, 62, 32, 60, 28040, 24687, 62]"

definition hello_text :: pystr where
  \<comment> \<open>service_game.py, line 216\<close>
  "hello_text =
     [20320, 22909]"

definition not_found_prefix :: pystr where
  \<comment> \<open>service_game.py, line 221\<close>
  "not_found_prefix =
     [27809, 26377, 25214, 21040, 35282, 33394, 32, 39]"

definition not_found_suffix :: pystr where
  \<comment> \<open>service_game.py, line 221\<close>
  "not_found_suffix =
     [39, 12290, 10, 36755, 20837, 32, 39, 99, 104, 97, 114, 97, 99, 116, 101, 114, 115, 39,
      32, 26597, 30475, 24403, 21069, 20301, 32622, 30340, 35282, 33394, 12290]"

definition not_here_suffix :: pystr where
  \<comment> \<open>service_game.py, line 226\<close>
  "not_here_suffix =
     [32, 19981, 22312, 36825, 37324, 12290]"

definition debug_prefix :: pystr where
  \<comment> \<open>service_game.py, line 253\<close>
  "debug_prefix =
     [10, 91, 35843, 35797, 58, 32]"

definition debug_mood :: pystr where
  \<comment> \<open>service_game.py, line 253\<close>
  "debug_mood =
     [44, 32, 24515, 24773, 58, 32]"

definition ai_error_prefix :: pystr where
  \<comment> \<open>service_game.py, line 259\<close>
  "ai_error_prefix =
     [65, 73, 26381, 21153, 38169, 35823, 58, 32]"

definition ai_error_suffix :: pystr where
  \<comment> \<open>service_game.py, line 259\<close>
  "ai_error_suffix =
     [10, 20351, 29992, 22791, 29992, 22238, 22797, 46, 46, 46]"

definition mock_elder_1 :: pystr where
  \<comment> \<open>service_game.py, line 269\<close>
  "mock_elder_1 =
     [24180, 36731, 30340, 20882, 38505, 32773, 65292, 25105, 21548, 21040, 20320, 35828,
      39]"

definition mock_elder_2 :: pystr where
  \<comment> \<open>service_game.py, line 269\<close>
  "mock_elder_2 =
     [39, 12290, 26449, 24196, 30340, 26234, 24935, 21578, 35785, 25105, 20204, 65292,
      27599, 19968, 27425, 20132, 27969, 37117, 26159, 23398, 20064, 30340, 26426, 20250,
      12290]"

definition mock_shopkeeper_1 :: pystr where
  \<comment> \<open>service_game.py, line 270\<close>
  "mock_shopkeeper_1 =
     [27426, 36814, 20809, 20020, 65281, 20851, 20110, 39]"

definition mock_shopkeeper_2 :: pystr where
  \<comment> \<open>service_game.py, line 270\<close>
  "mock_shopkeeper_2 =
     [39, 65292, 25105, 24819, 25105, 21487, 33021, 26377, 20123, 26377, 29992, 30340,
      19996, 35199, 32473, 20320, 12290]"

definition mock_traveler_1 :: pystr where
  \<comment> \<open>service_game.py, line 271\<close>
  "mock_traveler_1 =
     [26377, 36259, 46, 46, 46, 39]"

definition mock_traveler_2 :: pystr where
  \<comment> \<open>service_game.py, line 271\<close>
  "mock_traveler_2 =
     [39, 35753, 25105, 24819, 36215, 20102, 36828, 26041, 30340, 19968, 20123, 20256,
      35828, 46, 46, 46]"

definition mock_villager_1 :: pystr where
  \<comment> \<open>service_game.py, line 272\<close>
  "mock_villager_1 =
     [21734, 65292, 39]"

definition mock_villager_2 :: pystr where
  \<comment> \<open>service_game.py, line 272\<close>
  "mock_villager_2 =
     [39, 21834, 65292, 36825, 35753, 25105, 24819, 36215, 20102, 26449, 37324, 30340,
      19968, 20123, 20107, 24773, 12290]"

definition mock_fisherman_1 :: pystr where
  \<comment> \<open>service_game.py, line 273\<close>
  "mock_fisherman_1 =
     [21999, 46, 46, 46, 39]"

definition mock_fisherman_2 :: pystr where
  \<comment> \<open>service_game.py, line 273\<close>
  "mock_fisherman_2 =
     [39, 46, 46, 46, 23601, 20687, 27827, 27700, 19968, 26679, 65292, 35805, 35821, 20063,
      26377, 23427, 30340, 27969, 21521, 12290]"

definition mock_default_1 :: pystr where
  \<comment> \<open>service_game.py, line 276\<close>
  "mock_default_1 =
     [20851, 20110, 39]"

definition mock_default_2 :: pystr where
  \<comment> \<open>service_game.py, line 276\<close>
  "mock_default_2 =
     [39, 65292, 25105, 38656, 35201, 24819, 24819, 46, 46, 46]"

definition get_mock_ai_response :: "Character \<Rightarrow> pystr \<Rightarrow> pystr" where
  "get_mock_ai_response character message =
     dict_get
       [ (ascii ''elder'', mock_elder_1 @ message @ mock_elder_2),
         (ascii ''shopkeeper'', mock_shopkeeper_1 @ message @ mock_shopkeeper_2),
         (ascii ''traveler'', mock_traveler_1 @ message @ mock_traveler_2),
         (ascii ''villager'', mock_villager_1 @ message @ mock_villager_2),
         (ascii ''fisherman'', mock_fisherman_1 @ message @ mock_fisherman_2) ]
       (character_id character)
       (mock_default_1 @ message @ mock_default_2)"

text \<open>The transcript of lines 255 and 264; code point 34 is the double quote and 10 the
  newline.\<close>

definition transcript :: "pystr \<Rightarrow> pystr \<Rightarrow> pystr \<Rightarrow> pystr" where
  "transcript nm message reply =
     ascii ''You said to '' @ nm @ ascii '': '' @ [34] @ message @ [34, 10, 10] @
     nm @ ascii '': '' @ [34] @ reply @ [34]"

text \<open>
  \<^verbatim>\<open>_handle_talk_command\<close>.  The object \<^verbatim>\<open>character\<close> is the one stored in the registry
  under \<^verbatim>\<open>character_id\<close>, so \<^verbatim>\<open>update_mood\<close> and \<^verbatim>\<open>add_conversation\<close> change the
  registry entry.  Inside the \<^verbatim>\<open>try\<close> block the only step that can raise is
  \<^verbatim>\<open>self.world_service.get_current_location().name\<close>, when the pointer names no location:
  \<^verbatim>\<open>get_character_response\<close> catches every exception of its own, and \<^verbatim>\<open>asyncio.run\<close>
  is taken to run the coroutine to its end.  The last argument is the outcome of the
  completion call, should the command make one.
\<close>

definition handle_talk_command ::
  "pylib \<Rightarrow> GameService \<Rightarrow> pystr list \<Rightarrow> GameState \<Rightarrow> api_result \<Rightarrow>
   GameService \<times> GameState \<times> pystr" where
  "handle_talk_command lib g args game_state api =
     (if length args < 1 then (g, game_state, talk_usage_text)
      else
        (let character_id = args ! 0;
             message = (if length args > 1 then join (ascii '' '') (drop 1 args) else hello_text)
         in case get_character (character_service g) character_id of
              None \<Rightarrow> (g, game_state, not_found_prefix @ character_id @ not_found_suffix)
            | Some character \<Rightarrow>
                (let current_loc = current_location (world_service g)
                 in if location character \<noteq> current_loc
                    then (g, game_state, char_name character @ not_here_suffix)
                    else
                      (case get_current_location (world_service g) of
                         None \<Rightarrow>
                           if is_debug_mode (config_service g)
                           then (g, game_state,
                                 ai_error_prefix @ str_of_exn lib AttributeError @ ai_error_suffix)
                           else
                             (let response = get_mock_ai_response character message;
                                  character1 = add_conversation character message (JStr response);
                                  cs = character_service g
                              in (g\<lparr> character_service :=
                                       cs\<lparr> cs_characters :=
                                            AList.update character_id character1 (cs_characters cs) \<rparr> \<rparr>,
                                  game_state,
                                  transcript (char_name character) message response))
                       | Some l \<Rightarrow>
                           (let (a, ai_response) =
                                  get_character_response lib (config_service g) (ai_service g)
                                    (char_name character) (personality character) message
                                    (name l) (mood character) (ascii ''char_'' @ character_id) api;
                                response_text = msg ai_response;
                                new_mood = resp_mood ai_response;
                                character1 = update_mood character new_mood;
                                character2 = add_conversation character1 message response_text;
                                status_info =
                                  (if is_debug_mode (config_service g)
                                   then debug_prefix @ status ai_response @ debug_mood @
                                        format_2f lib (mood character2) @ ascii '']''
                                   else []);
                                cs = character_service g
                            in (g\<lparr> ai_service := a,
                                   character_service :=
                                     cs\<lparr> cs_characters :=
                                          AList.update character_id character2 (cs_characters cs) \<rparr> \<rparr>,
                                game_state,
                                transcript (char_name character) message (fmt lib response_text) @
                                status_info))))))"

section \<open>Sequences of calls\<close>

text \<open>Repeated calls of \<^verbatim>\<open>add_conversation\<close> on one character, with the user text and the
  reply of each call, and the history entry that a call appends.\<close>

definition add_conversations :: "Character \<Rightarrow> (pystr \<times> json) list \<Rightarrow> Character" where
  "add_conversations c ts = foldl (\<lambda>c (u, a). add_conversation c u a) c ts"

definition turn_of :: "pystr \<times> json \<Rightarrow> Turn" where
  "turn_of p = \<lparr> user = fst p, ai = snd p \<rparr>"

text \<open>Fifteen different turns: the user texts are the letters A to O and the replies
  the letters a to o.\<close>

definition fifteen_turns :: "(pystr \<times> json) list" where
  "fifteen_turns = map (\<lambda>n. ([65 + n], JStr [97 + n])) [0..<15]"

text \<open>
  One call of \<^verbatim>\<open>get_character_response\<close>: its six arguments and the outcome of the
  completion call it makes.
\<close>

record Call =
  call_name :: pystr
  call_personality :: pystr
  call_message :: pystr
  call_location :: pystr
  call_mood :: real
  call_session :: pystr
  call_api :: api_result

definition respond :: "pylib \<Rightarrow> Config \<Rightarrow> AIService \<Rightarrow> Call \<Rightarrow> AIService \<times> Response" where
  "respond lib cfg a c =
     get_character_response lib cfg a (call_name c) (call_personality c) (call_message c)
       (call_location c) (call_mood c) (call_session c) (call_api c)"

text \<open>The operations of the service that touch the session histories, and a run of
  them on one service.\<close>

datatype ai_op =
    Respond Call
  | Clear pystr
  | Info pystr

definition apply_op :: "pylib \<Rightarrow> Config \<Rightarrow> AIService \<Rightarrow> ai_op \<Rightarrow> AIService" where
  "apply_op lib cfg a op =
     (case op of
        Respond c \<Rightarrow> fst (respond lib cfg a c)
      | Clear session_id \<Rightarrow> clear_character_history a session_id
      | Info session_id \<Rightarrow> fst (get_session_info a session_id))"

definition run_ops :: "pylib \<Rightarrow> Config \<Rightarrow> AIService \<Rightarrow> ai_op list \<Rightarrow> AIService" where
  "run_ops lib cfg a ops = foldl (apply_op lib cfg) a ops"

text \<open>The calls of \<^verbatim>\<open>get_character_response\<close> for one session in a run, in order.\<close>

fun responds_for :: "pystr \<Rightarrow> ai_op list \<Rightarrow> Call list" where
  "responds_for session_id [] = []"
| "responds_for session_id (Respond c # ops) =
     (if call_session c = session_id then c # responds_for session_id ops
      else responds_for session_id ops)"
| "responds_for session_id (_ # ops) = responds_for session_id ops"

text \<open>The history stored for a session, empty when there is none.\<close>

definition history_of :: "AIService \<Rightarrow> pystr \<Rightarrow> Message list" where
  "history_of a session_id =
     (case session_histories a session_id of None \<Rightarrow> [] | Some h \<Rightarrow> h)"

text \<open>The prompt that a call builds, and the system entries of a history.\<close>

definition call_prompt :: "pylib \<Rightarrow> Config \<Rightarrow> Call \<Rightarrow> pystr" where
  "call_prompt lib cfg c =
     build_character_prompt lib cfg (call_name c) (call_personality c) (call_location c)
       (call_mood c)"

definition system_entries :: "Message list \<Rightarrow> Message list" where
  "system_entries h = filter (\<lambda>m. role m = ascii ''system'') h"

section \<open>Data for the examples\<close>

text \<open>The canonical direction tokens: the keys of \<^verbatim>\<open>direction_names\<close>.\<close>

definition canonical_directions :: "pystr list" where
  "canonical_directions = map fst direction_names"

text \<open>A world of one location whose only exit leads to an identifier that is not a
  location.\<close>

definition dangling_world :: WorldService where
  "dangling_world =
     \<lparr> locations = [ (ascii ''cellar'',
                      Location_init (ascii ''Cellar'') (ascii ''A dark cellar.'')
                        (Some [ (ascii ''up'', ascii ''attic'') ])) ],
       current_location = ascii ''cellar'' \<rparr>"

text \<open>
  Reply texts of the completion endpoint, by their code points:
  \<^item> \<open>reply_mood_high\<close> is \<^verbatim>\<open>{"msg":"hi","mood":1.7}\<close>;
  \<^item> \<open>reply_no_mood\<close> is \<^verbatim>\<open>{"msg":"hi"}\<close>;
  \<^item> \<open>reply_mood_text\<close> is \<^verbatim>\<open>{"msg":"hi","mood":"abc"}\<close>;
  \<^item> \<open>reply_empty_object\<close> is \<^verbatim>\<open>{}\<close>;
  \<^item> \<open>reply_number\<close> is \<^verbatim>\<open>42\<close>;
  \<^item> \<open>reply_plain\<close> is \<^verbatim>\<open>hello there\<close>;
  \<^item> \<open>reply_padded\<close> is \<^verbatim>\<open>hello there\<close> after one space.
\<close>

definition reply_mood_high :: pystr where
  "reply_mood_high =
     [123, 34, 109, 115, 103, 34, 58, 34, 104, 105, 34, 44, 34, 109, 111, 111, 100, 34, 58,
      49, 46, 55, 125]"

definition reply_no_mood :: pystr where
  "reply_no_mood = [123, 34, 109, 115, 103, 34, 58, 34, 104, 105, 34, 125]"

definition reply_mood_text :: pystr where
  "reply_mood_text =
     [123, 34, 109, 115, 103, 34, 58, 34, 104, 105, 34, 44, 34, 109, 111, 111, 100, 34, 58,
      34, 97, 98, 99, 34, 125]"

definition reply_empty_object :: pystr where
  "reply_empty_object = [123, 125]"

definition reply_number :: pystr where
  "reply_number = [52, 50]"

definition reply_plain :: pystr where
  "reply_plain = [104, 101, 108, 108, 111, 32, 116, 104, 101, 114, 101]"

definition reply_padded :: pystr where
  "reply_padded = [32, 104, 101, 108, 108, 111, 32, 116, 104, 101, 114, 101]"

text \<open>
  An instance of the library functions for the examples.  On the arguments that the
  examples reach it returns what Python returns: \<^verbatim>\<open>json.loads\<close> of the six reply texts
  (the last one is not JSON), \<^verbatim>\<open>float("abc")\<close> raising \<^verbatim>\<open>ValueError\<close>, the format
  \<^verbatim>\<open>.2f\<close> of 0.5, 0.7 and 1.0, \<^verbatim>\<open>str(500)\<close>, and \<^verbatim>\<open>lower\<close> on ASCII text.  The text of
  an interpreter exception depends on the Python version and is left empty; no example
  states anything about it.
\<close>

definition demo_json_loads :: "pystr \<Rightarrow> json option" where
  "demo_json_loads s =
     (if s = reply_mood_high
      then Some (JObj [(ascii ''msg'', JStr (ascii ''hi'')), (ascii ''mood'', JFloat 1.7)])
      else if s = reply_no_mood
      then Some (JObj [(ascii ''msg'', JStr (ascii ''hi''))])
      else if s = reply_mood_text
      then Some (JObj [(ascii ''msg'', JStr (ascii ''hi'')),
                       (ascii ''mood'', JStr (ascii ''abc''))])
      else if s = reply_empty_object
      then Some (JObj [])
      else if s = reply_number
      then Some (JInt 42)
      else None)"

definition demo_format_2f :: "real \<Rightarrow> pystr" where
  "demo_format_2f r =
     (if r = 0.5 then ascii ''0.50''
      else if r = 0.7 then ascii ''0.70''
      else if r = 1 then ascii ''1.00''
      else [])"

definition demo_lib :: pylib where
  "demo_lib =
     \<lparr> str_lower = map (\<lambda>c. if 65 \<le> c \<and> c \<le> 90 then c + 32 else c),
       json_loads = demo_json_loads,
       float_of_str = (\<lambda>s. None),
       format_2f = demo_format_2f,
       py_str = (\<lambda>v. if v = JInt 500 then ascii ''500'' else []),
       exn_text = (\<lambda>e. []) \<rparr>"

text \<open>The call that \<^verbatim>\<open>talk elder hello\<close> makes at the village centre, for a given mood
  of the elder and a given reply text of the endpoint.\<close>

definition elder_call :: "real \<Rightarrow> pystr \<Rightarrow> Call" where
  "elder_call md reply =
     \<lparr> call_name = elder_name,
       call_personality = elder_personality,
       call_message = ascii ''hello'',
       call_location = village_center_name,
       call_mood = md,
       call_session = ascii ''char_elder'',
       call_api = Completion [Some reply] \<rparr>"

text \<open>A new game service with the configuration of \<^verbatim>\<open>config.py\<close> and a working
  client, and the game state of a new game.\<close>

definition demo_game :: GameService where
  "demo_game = GameService_init file_config True"

definition demo_state :: GameState where
  "demo_state = snd (create_new_game demo_game)"

text \<open>The same game later on: the player stands at the forest entrance, and every
  character has the mood 0.9 and one turn in its conversation history.\<close>

definition played_game :: GameService where
  "played_game =
     demo_game
       \<lparr> world_service :=
           (world_service demo_game)\<lparr> current_location := ascii ''forest_entrance'' \<rparr>,
         character_service :=
           \<lparr> cs_characters =
               map (\<lambda>(cid, c).
                      (cid, add_conversation (update_mood c 0.9) (ascii ''hello'')
                              (JStr (ascii ''hi''))))
                   (cs_characters (character_service demo_game)) \<rparr> \<rparr>"

section \<open>Facts about strings and lists\<close>

lemma ascii_eq_iff: "ascii s = ascii t \<longleftrightarrow> s = t"
  unfolding ascii_def by (simp add: inj_map_eq_map inj_on_def)

lemma ascii_Nil: "ascii [] = []"
  by (simp add: ascii_def)

lemma ascii_Cons: "ascii (c # cs) = of_char c # ascii cs"
  by (simp add: ascii_def)

lemma last_n_last_n_snoc: "last_n n (last_n n xs @ [x]) = last_n n (xs @ [x])"
  by (cases "length xs \<le> n") (auto simp: last_n_def Suc_diff_le)

lemma length_last_n: "length (last_n n xs) = min n (length xs)"
  by (simp add: last_n_def)

section \<open>The constructor of a character\<close>

text \<open>
  Claim C10.  A character constructed with the mood argument \<open>0.0\<close> gets the configured
  default mood, which is \<open>0.5\<close> in the configuration of \<^verbatim>\<open>config.py\<close>, because the
  constructor treats a zero like an omitted argument; a mood argument strictly between
  \<open>0\<close> and \<open>1\<close> is kept as given.
\<close>

theorem character_init_zero_mood:
  "mood (Character_init cfg cid nm pers loc (Some 0)) = get_default_mood cfg \<and>
   get_default_mood file_config = 0.5 \<and>
   (0 < m \<and> m < 1 \<longrightarrow> mood (Character_init cfg cid nm pers loc (Some m)) = m)"
  by (simp add: Character_init_def get_default_mood_def file_config_def)

theorem character_init_zero_mood_witness:
  "mood (Character_init file_config (ascii ''elder'') elder_name elder_personality
           (ascii ''village_center'') (Some 0)) = 0.5 \<and>
   mood (Character_init file_config (ascii ''elder'') elder_name elder_personality
           (ascii ''village_center'') (Some 0.7)) = 0.7"
  using character_init_zero_mood [of file_config "ascii ''elder''" elder_name
      elder_personality "ascii ''village_center''" "0.7"]
  by simp

section \<open>The conversation history of a character\<close>

lemma add_conversation_history:
  "conversation_history (add_conversation c u a) =
     last_n 10 (conversation_history c @ [\<lparr> user = u, ai = a \<rparr>])"
  by (simp add: add_conversation_def Let_def last_n_def)

lemma add_conversations_history:
  "length (conversation_history c) \<le> 10 \<Longrightarrow>
   conversation_history (add_conversations c ts) =
     last_n 10 (conversation_history c @ map turn_of ts)"
proof (induction ts rule: rev_induct)
  case Nil
  then show ?case by (simp add: add_conversations_def last_n_def)
next
  case (snoc t ts)
  then show ?case
    by (simp add: add_conversations_def add_conversation_history turn_of_def
        last_n_last_n_snoc split: prod.splits flip: append_assoc)
qed

text \<open>
  Claim C6.  Whatever the number of \<^verbatim>\<open>add_conversation\<close> calls on a character (whose
  history has at most 10 entries to begin with, as it has after the constructor and
  after every call), the history has at most 10 entries afterwards, and they are the
  most recent ones of the old history followed by the appended turns, in their order.
\<close>

theorem add_conversation_keeps_last_10:
  assumes "length (conversation_history c) \<le> 10"
  shows "conversation_history (add_conversations c ts) =
           last_n 10 (conversation_history c @ map turn_of ts) \<and>
         length (conversation_history (add_conversations c ts)) \<le> 10"
  using assms by (simp add: add_conversations_history length_last_n)

text \<open>After 15 appends to a new character exactly the last 10 turns remain, in order.\<close>

theorem add_conversation_keeps_last_10_witness:
  "length (conversation_history
      (Character_init file_config (ascii ''elder'') elder_name elder_personality
         (ascii ''village_center'') (Some 0.7))) \<le> 10 \<and>
   length fifteen_turns = 15 \<and>
   conversation_history
     (add_conversations
        (Character_init file_config (ascii ''elder'') elder_name elder_personality
           (ascii ''village_center'') (Some 0.7))
        fifteen_turns) = map turn_of (drop 5 fifteen_turns)"
proof -
  have h: "length (conversation_history
      (Character_init file_config (ascii ''elder'') elder_name elder_personality
         (ascii ''village_center'') (Some 0.7))) \<le> 10"
    by (simp add: Character_init_def)
  have l: "length fifteen_turns = 15"
    by (simp add: fifteen_turns_def)
  show ?thesis
    using add_conversation_keeps_last_10 [OF h, of fifteen_turns] h l
    by (simp add: last_n_def Character_init_def drop_map)
qed

section \<open>Moving through the world\<close>

lemmas zh_defs = zh_north_def zh_south_def zh_east_def zh_west_def zh_up_def zh_down_def
  zh_north_side_def zh_south_side_def zh_east_side_def zh_west_side_def zh_up_side_def
  zh_down_side_def

lemma canonical_direction_cases:
  "d \<in> set canonical_directions \<longleftrightarrow>
     d = ascii ''north'' \<or> d = ascii ''south'' \<or> d = ascii ''east'' \<or> d = ascii ''west'' \<or>
     d = ascii ''up'' \<or> d = ascii ''down''"
  by (auto simp: canonical_directions_def direction_names_def)

lemma of_char_eq_big:
  assumes "256 \<le> n"
  shows "(of_char c = (n::nat)) = False"
proof -
  have "of_char c < (256::nat)"
    by (rule nat_of_char_less_256)
  with assms have "of_char c \<noteq> n"
    by linarith
  then show ?thesis
    by blast
qed

lemma map_of_direction_map_ascii: "map_of direction_map (ascii s) = None"
  by (cases s) (simp_all add: direction_map_def zh_defs ascii_Cons ascii_Nil of_char_eq_big)

lemma canonical_direction_normal:
  "d \<in> set canonical_directions \<Longrightarrow> dict_get direction_map d d = d"
  by (auto simp: canonical_direction_cases dict_get_def map_of_direction_map_ascii)

lemma move_to_success:
  "get_current_location ws = Some l \<Longrightarrow>
   map_of (exits l) (dict_get direction_map d d) = Some t \<Longrightarrow>
   map_of (locations ws) t \<noteq> None \<Longrightarrow>
   move_to ws d = (ws\<lparr> current_location := t \<rparr>, True, moved_prefix @ d @ moved_suffix)"
  by (simp add: move_to_def Let_def)

lemma move_to_no_exit:
  "get_current_location ws = Some l \<Longrightarrow>
   map_of (exits l) (dict_get direction_map d d) = None \<Longrightarrow>
   move_to ws d = (ws, False, cannot_move_prefix @ d @ cannot_move_suffix)"
  by (simp add: move_to_def Let_def)

lemma move_to_dangling:
  "get_current_location ws = Some l \<Longrightarrow>
   map_of (exits l) (dict_get direction_map d d) = Some t \<Longrightarrow>
   map_of (locations ws) t = None \<Longrightarrow>
   move_to ws d = (ws, False, target_prefix @ t @ target_suffix)"
  by (simp add: move_to_def Let_def)

text \<open>
  Claim C3.  For a canonical direction that is in the exit map of the current location
  and whose destination is a location, \<^verbatim>\<open>move_to\<close> returns success and the pointer is
  the destination afterwards.  For a direction that, after normalisation, is not in the
  exit map, and for an exit whose destination is not a location, \<^verbatim>\<open>move_to\<close> fails and
  leaves the world, the pointer with it, as it was.
\<close>

theorem move_to_exits:
  "(d \<in> set canonical_directions \<and> get_current_location ws = Some l \<and>
    map_of (exits l) d = Some t \<and> map_of (locations ws) t \<noteq> None \<longrightarrow>
      fst (snd (move_to ws d)) \<and> current_location (fst (move_to ws d)) = t) \<and>
   (get_current_location ws = Some l \<and>
    map_of (exits l) (dict_get direction_map d' d') = None \<longrightarrow>
      \<not> fst (snd (move_to ws d')) \<and> fst (move_to ws d') = ws) \<and>
   (get_current_location ws = Some l \<and>
    map_of (exits l) (dict_get direction_map d' d') = Some t' \<and>
    map_of (locations ws) t' = None \<longrightarrow>
      \<not> fst (snd (move_to ws d')) \<and> fst (move_to ws d') = ws)"
  by (auto simp: move_to_success move_to_no_exit move_to_dangling canonical_direction_normal)

lemma village_center_location:
  "get_current_location WorldService_init =
     Some (Location_init village_center_name village_center_description
             (Some [ (ascii ''north'', ascii ''forest_entrance''),
                     (ascii ''east'', ascii ''village_shop''),
                     (ascii ''west'', ascii ''village_house''),
                     (ascii ''south'', ascii ''river_bank'') ]))"
  by (simp add: get_current_location_def WorldService_init_def)

lemma village_center_exits:
  "map_of (exits (Location_init village_center_name village_center_description
             (Some [ (ascii ''north'', ascii ''forest_entrance''),
                     (ascii ''east'', ascii ''village_shop''),
                     (ascii ''west'', ascii ''village_house''),
                     (ascii ''south'', ascii ''river_bank'') ]))) (ascii s) =
   (if s = ''north'' then Some (ascii ''forest_entrance'')
    else if s = ''east'' then Some (ascii ''village_shop'')
    else if s = ''west'' then Some (ascii ''village_house'')
    else if s = ''south'' then Some (ascii ''river_bank'')
    else None)"
  by (simp add: Location_init_def ascii_eq_iff)

lemma forest_entrance_exists:
  "map_of (locations WorldService_init) (ascii ''forest_entrance'') \<noteq> None"
  by (simp add: WorldService_init_def ascii_eq_iff)

lemma dangling_world_location:
  "get_current_location dangling_world =
     Some (Location_init (ascii ''Cellar'') (ascii ''A dark cellar.'')
             (Some [ (ascii ''up'', ascii ''attic'') ]))"
  by (simp add: get_current_location_def dangling_world_def)

text \<open>From the village centre, north leads to the forest entrance and there is no way
  up; in the world with the dangling exit the move fails.\<close>

theorem move_to_exits_witness:
  "ascii ''north'' \<in> set canonical_directions \<and>
   move_to WorldService_init (ascii ''north'') =
     (WorldService_init\<lparr> current_location := ascii ''forest_entrance'' \<rparr>, True,
      moved_prefix @ ascii ''north'' @ moved_suffix) \<and>
   move_to WorldService_init (ascii ''up'') =
     (WorldService_init, False, cannot_move_prefix @ ascii ''up'' @ cannot_move_suffix) \<and>
   move_to dangling_world (ascii ''up'') =
     (dangling_world, False, target_prefix @ ascii ''attic'' @ target_suffix)"
proof -
  let ?vc = "Location_init village_center_name village_center_description
             (Some [ (ascii ''north'', ascii ''forest_entrance''),
                     (ascii ''east'', ascii ''village_shop''),
                     (ascii ''west'', ascii ''village_house''),
                     (ascii ''south'', ascii ''river_bank'') ])"
  let ?cellar = "Location_init (ascii ''Cellar'') (ascii ''A dark cellar.'')
             (Some [ (ascii ''up'', ascii ''attic'') ])"
  have c: "ascii ''north'' \<in> set canonical_directions"
    by (simp add: canonical_direction_cases)
  have n: "dict_get direction_map (ascii s) (ascii s) = ascii s" for s
    by (simp add: dict_get_def map_of_direction_map_ascii)
  have e1: "map_of (exits ?vc) (ascii ''north'') = Some (ascii ''forest_entrance'')"
    by (simp add: village_center_exits)
  have e2: "map_of (exits ?vc) (dict_get direction_map (ascii ''up'') (ascii ''up'')) = None"
    by (simp add: n village_center_exits)
  have e3: "map_of (exits ?cellar) (dict_get direction_map (ascii ''up'') (ascii ''up'')) =
              Some (ascii ''attic'')"
    by (simp add: n Location_init_def)
  have e4: "map_of (locations dangling_world) (ascii ''attic'') = None"
    by (simp add: dangling_world_def ascii_eq_iff)
  have a: "fst (snd (move_to WorldService_init (ascii ''north''))) \<and>
           current_location (fst (move_to WorldService_init (ascii ''north''))) =
             ascii ''forest_entrance''"
    using move_to_exits [of "ascii ''north''" WorldService_init ?vc "ascii ''forest_entrance''"]
      c village_center_location e1 forest_entrance_exists by blast
  have b: "\<not> fst (snd (move_to WorldService_init (ascii ''up''))) \<and>
           fst (move_to WorldService_init (ascii ''up'')) = WorldService_init"
    using move_to_exits [of _ WorldService_init ?vc _ "ascii ''up''"]
      village_center_location e2 by blast
  have d: "\<not> fst (snd (move_to dangling_world (ascii ''up''))) \<and>
           fst (move_to dangling_world (ascii ''up'')) = dangling_world"
    using move_to_exits [of _ dangling_world ?cellar _ "ascii ''up''" "ascii ''attic''"]
      dangling_world_location e3 e4 by blast
  show ?thesis
    using a b d c
    by (simp add: move_to_success [OF village_center_location]
        move_to_no_exit [OF village_center_location e2]
        move_to_dangling [OF dangling_world_location e3 e4] n e1 forest_entrance_exists)
qed

text \<open>
  Claim C2, which the code does not meet.  \<^verbatim>\<open>process_command\<close> hands the letter \<open>n\<close> to
  the movement handler as a direction, but \<^verbatim>\<open>direction_map\<close> holds the Chinese variants
  only: at the village centre, where \<open>north\<close> and its Chinese variant succeed, the
  letter is looked up as it is and the move fails.
\<close>

theorem letter_direction_is_not_normalized:
  "ascii ''n'' \<in> set direction_actions \<and>
   move_to WorldService_init (ascii ''north'') =
     (WorldService_init\<lparr> current_location := ascii ''forest_entrance'' \<rparr>, True,
      moved_prefix @ ascii ''north'' @ moved_suffix) \<and>
   move_to WorldService_init zh_north =
     (WorldService_init\<lparr> current_location := ascii ''forest_entrance'' \<rparr>, True,
      moved_prefix @ zh_north @ moved_suffix) \<and>
   move_to WorldService_init (ascii ''n'') =
     (WorldService_init, False, cannot_move_prefix @ ascii ''n'' @ cannot_move_suffix)"
proof -
  have n: "dict_get direction_map (ascii s) (ascii s) = ascii s" for s
    by (simp add: dict_get_def map_of_direction_map_ascii)
  have z: "dict_get direction_map zh_north zh_north = ascii ''north''"
    by (simp add: dict_get_def direction_map_def)
  have a: "ascii ''n'' \<in> set direction_actions"
    by (simp add: direction_actions_def)
  show ?thesis
    by (simp add: a n z move_to_def village_center_location village_center_exits
        forest_entrance_exists)
qed

text \<open>Every Chinese variant, on the other hand, moves as its canonical token does; only
  the message names the token as it was given.\<close>

lemma chinese_direction_normalized:
  assumes "map_of direction_map d = Some c"
  shows "c \<in> set canonical_directions \<and>
         fst (move_to ws d) = fst (move_to ws c) \<and>
         fst (snd (move_to ws d)) = fst (snd (move_to ws c))"
proof -
  have c: "c \<in> set canonical_directions"
    using assms
    by (auto simp: direction_map_def canonical_direction_cases split: if_splits)
  have "dict_get direction_map d d = c"
    using assms by (simp add: dict_get_def)
  moreover have "dict_get direction_map c c = c"
    using c by (rule canonical_direction_normal)
  ultimately show ?thesis
    using c by (simp add: move_to_def Let_def split: option.splits)
qed

section \<open>A new game\<close>

lemma add_character_to_location_current:
  "current_location (add_character_to_location ws cid l) = current_location ws"
  by (simp add: add_character_to_location_def Let_def split: option.splits)

lemma sync_fold_current:
  "current_location
     (foldl (\<lambda>ws (char_id, character).
               add_character_to_location ws char_id (Some (location character))) ws cs) =
   current_location ws"
  by (induction cs arbitrary: ws)
     (simp_all add: add_character_to_location_current split: prod.splits)

lemma sync_character_locations_frame:
  "current_location (world_service (sync_character_locations g)) =
     current_location (world_service g) \<and>
   character_service (sync_character_locations g) = character_service g \<and>
   ai_service (sync_character_locations g) = ai_service g \<and>
   config_service (sync_character_locations g) = config_service g"
  by (simp add: sync_character_locations_def sync_fold_current)

lemma create_new_game_services:
  "current_location (world_service (fst (create_new_game g))) = ascii ''village_center'' \<and>
   character_service (fst (create_new_game g)) =
     reset_all_moods (config_service g) (character_service g)"
  by (simp add: create_new_game_def Let_def sync_character_locations_frame reset_to_start_def)

text \<open>
  Claim C9.  A new game sets the pointer to the start identifier, and every character
  of the roster, whatever its state before, has the configured default mood and an
  empty conversation history afterwards; the roster keeps its keys.
\<close>

theorem create_new_game_resets:
  "current_location (world_service (fst (create_new_game g))) = ascii ''village_center'' \<and>
   map fst (cs_characters (character_service (fst (create_new_game g)))) =
     map fst (cs_characters (character_service g)) \<and>
   (\<forall>(cid, c) \<in> set (cs_characters (character_service (fst (create_new_game g)))).
      mood c = get_default_mood (config_service g) \<and> conversation_history c = [])"
  by (auto simp: create_new_game_services reset_all_moods_def Let_def)

lemma demo_game_services:
  "current_location (world_service demo_game) = ascii ''village_center'' \<and>
   character_service demo_game = initialize_characters file_config \<and>
   ai_service demo_game = AIService_init True \<and>
   config_service demo_game = file_config"
  by (simp add: demo_game_def GameService_init_def sync_character_locations_frame
      WorldService_init_def)

lemma map_const_values:
  "\<forall>(k, v) \<in> set xs. f v = y \<Longrightarrow>
   map (\<lambda>(k, v). (k, f v)) xs = map (\<lambda>k. (k, y)) (map fst xs)"
  by (induction xs) auto

lemma played_game_before:
  "current_location (world_service played_game) = ascii ''forest_entrance'' \<and>
   map (\<lambda>(cid, c). (cid, mood c, length (conversation_history c)))
     (cs_characters (character_service played_game)) =
     [ (ascii ''elder'', 0.9, 1), (ascii ''shopkeeper'', 0.9, 1), (ascii ''traveler'', 0.9, 1),
       (ascii ''villager'', 0.9, 1), (ascii ''fisherman'', 0.9, 1) ]"
  by (simp add: played_game_def demo_game_services initialize_characters_def
      Character_init_def add_conversation_def update_mood_def)

text \<open>In the game where every character has the mood 0.9 and one turn of history, and
  the player stands at the forest entrance, a new game resets all of it.\<close>

theorem create_new_game_resets_witness:
  "current_location (world_service played_game) = ascii ''forest_entrance'' \<and>
   map (\<lambda>(cid, c). (cid, mood c, length (conversation_history c)))
     (cs_characters (character_service played_game)) =
     [ (ascii ''elder'', 0.9, 1), (ascii ''shopkeeper'', 0.9, 1), (ascii ''traveler'', 0.9, 1),
       (ascii ''villager'', 0.9, 1), (ascii ''fisherman'', 0.9, 1) ] \<and>
   current_location (world_service (fst (create_new_game played_game))) =
     ascii ''village_center'' \<and>
   map (\<lambda>(cid, c). (cid, mood c, conversation_history c))
     (cs_characters (character_service (fst (create_new_game played_game)))) =
     [ (ascii ''elder'', 0.5, []), (ascii ''shopkeeper'', 0.5, []), (ascii ''traveler'', 0.5, []),
       (ascii ''villager'', 0.5, []), (ascii ''fisherman'', 0.5, []) ]"
proof -
  let ?cs = "cs_characters (character_service (fst (create_new_game played_game)))"
  have k: "map fst (cs_characters (character_service played_game)) =
      [ascii ''elder'', ascii ''shopkeeper'', ascii ''traveler'', ascii ''villager'',
       ascii ''fisherman'']"
    by (simp add: played_game_def demo_game_services initialize_characters_def)
  have d: "get_default_mood (config_service played_game) = 0.5"
    by (simp add: played_game_def demo_game_services get_default_mood_def file_config_def)
  have r: "current_location (world_service (fst (create_new_game played_game))) =
             ascii ''village_center'' \<and>
           map fst ?cs = map fst (cs_characters (character_service played_game)) \<and>
           (\<forall>(cid, c) \<in> set ?cs. mood c = 0.5 \<and> conversation_history c = [])"
    using create_new_game_resets [of played_game] d by simp
  from r have "\<forall>(cid, c) \<in> set ?cs. (mood c, conversation_history c) = (0.5, [])"
    by auto
  then have "map (\<lambda>(cid, c). (cid, mood c, conversation_history c)) ?cs =
             map (\<lambda>cid. (cid, 0.5, [])) (map fst ?cs)"
    by (rule map_const_values)
  also have "map fst ?cs = map fst (cs_characters (character_service played_game))"
    using r by blast
  finally show ?thesis
    using r k played_game_before by simp
qed

section \<open>The talk command\<close>

text \<open>
  Claim C8.  For a character identifier that is not in the registry the talk command
  answers that the character was not found, and for a registered character that is at
  another location it answers that the character is not here; in both cases the game
  service (world, characters with their moods and histories, session histories) and
  the game state come back unchanged.
\<close>

theorem talk_failure_mutates_nothing:
  "(get_character (character_service g) cid = None \<longrightarrow>
      handle_talk_command lib g (cid # rest) game_state api =
        (g, game_state, not_found_prefix @ cid @ not_found_suffix)) \<and>
   (get_character (character_service g) cid = Some c \<and>
    location c \<noteq> current_location (world_service g) \<longrightarrow>
      handle_talk_command lib g (cid # rest) game_state api =
        (g, game_state, char_name c @ not_here_suffix))"
  by (simp add: handle_talk_command_def Let_def)

text \<open>In a new game, \<^verbatim>\<open>talk unknownid hello\<close> and, from the village centre, talking to
  the shopkeeper.\<close>

theorem talk_failure_mutates_nothing_witness:
  "handle_talk_command demo_lib demo_game [ascii ''unknownid'', ascii ''hello''] demo_state
     (Completion [Some reply_mood_high]) =
     (demo_game, demo_state, not_found_prefix @ ascii ''unknownid'' @ not_found_suffix) \<and>
   handle_talk_command demo_lib demo_game [ascii ''shopkeeper'', ascii ''hello''] demo_state
     (Completion [Some reply_mood_high]) =
     (demo_game, demo_state, shopkeeper_name @ not_here_suffix)"
proof -
  let ?sk = "Character_init file_config (ascii ''shopkeeper'') shopkeeper_name
      shopkeeper_personality (ascii ''village_shop'') (Some 0.6)"
  have u: "get_character (character_service demo_game) (ascii ''unknownid'') = None"
    by (simp add: get_character_def demo_game_services initialize_characters_def ascii_eq_iff)
  have s: "get_character (character_service demo_game) (ascii ''shopkeeper'') = Some ?sk"
    by (simp add: get_character_def demo_game_services initialize_characters_def ascii_eq_iff)
  have l: "location ?sk \<noteq> current_location (world_service demo_game)"
    by (simp add: demo_game_services Character_init_def ascii_eq_iff)
  have n: "char_name ?sk = shopkeeper_name"
    by (simp add: Character_init_def)
  show ?thesis
    using talk_failure_mutates_nothing [of demo_game "ascii ''unknownid''" demo_lib
        "[ascii ''hello'']" demo_state "Completion [Some reply_mood_high]" ?sk]
      talk_failure_mutates_nothing [of demo_game "ascii ''shopkeeper''" demo_lib
        "[ascii ''hello'']" demo_state "Completion [Some reply_mood_high]" ?sk]
      u s l n
    by simp
qed

section \<open>The session histories of the dialogue adapter\<close>

lemma role_distinct:
  "ascii ''user'' \<noteq> ascii ''system''" "ascii ''assistant'' \<noteq> ascii ''system''"
  by (simp_all add: ascii_eq_iff)

lemma put_system_prompt_first:
  "put_system_prompt h p \<noteq> [] \<and>
   put_system_prompt h p ! 0 = \<lparr> role = ascii ''system'', content = JStr p \<rparr> \<and>
   tl (put_system_prompt h p) =
     (if h = [] \<or> role (h ! 0) \<noteq> ascii ''system'' then h else tl h)"
  by (cases h) (auto simp: put_system_prompt_def)

lemma put_system_prompt_length:
  "length (put_system_prompt h p) =
     (if h = [] \<or> role (h ! 0) \<noteq> ascii ''system'' then Suc (length h) else length h)"
  by (simp add: put_system_prompt_def)

lemma respond_without_client: "\<not> client a \<Longrightarrow> fst (respond lib cfg a c) = a"
  by (simp add: respond_def get_character_response_def)

lemma respond_stored:
  assumes "client a"
  shows "\<exists>extra.
     session_histories (fst (respond lib cfg a c)) =
       (session_histories a)(call_session c \<mapsto>
          put_system_prompt (history_of a (call_session c)) (call_prompt lib cfg c) @
          \<lparr> role = ascii ''user'', content = JStr (call_message c) \<rparr> # extra) \<and>
     (\<forall>m \<in> set extra. role m = ascii ''assistant'') \<and>
     client (fst (respond lib cfg a c))"
  using assms
  by (auto simp: respond_def get_character_response_def get_session_history_def history_of_def
      call_prompt_def Let_def split: option.splits sum.splits prod.splits)

lemma responds_for_snoc:
  "responds_for sid (ops @ [op]) =
     responds_for sid ops @
     (case op of
        Respond c \<Rightarrow> if call_session c = sid then [c] else []
      | _ \<Rightarrow> [])"
  by (induction sid ops rule: responds_for.induct) (auto split: ai_op.splits)

lemma system_entries_after_call:
  assumes "h = [] \<or> system_entries h = [h ! 0]"
    and "\<forall>m \<in> set extra. role m = ascii ''assistant''"
  shows "system_entries
           (put_system_prompt h p @ \<lparr> role = ascii ''user'', content = JStr u \<rparr> # extra) =
         [\<lparr> role = ascii ''system'', content = JStr p \<rparr>]"
proof -
  have e: "filter (\<lambda>m. role m = ascii ''system'') extra = []"
    using assms(2) by (auto simp: filter_empty_conv role_distinct)
  show ?thesis
  proof (cases h)
    case Nil
    then show ?thesis
      by (simp add: system_entries_def put_system_prompt_def role_distinct e)
  next
    case (Cons x xs)
    with assms(1) have f: "filter (\<lambda>m. role m = ascii ''system'') (x # xs) = [x]"
      by (simp add: system_entries_def)
    have "x \<in> set (filter (\<lambda>m. role m = ascii ''system'') (x # xs))"
      unfolding f by simp
    then have "role x = ascii ''system''"
      by (auto split: if_splits)
    with f have "role x = ascii ''system'' \<and> filter (\<lambda>m. role m = ascii ''system'') xs = []"
      by simp
    with Cons show ?thesis
      by (simp add: system_entries_def put_system_prompt_def role_distinct e)
  qed
qed

lemma run_ops_snoc:
  "run_ops lib cfg a (ops @ [op]) = apply_op lib cfg (run_ops lib cfg a ops) op"
  by (simp add: run_ops_def)

text \<open>The invariant of a run that starts with a new service.\<close>

lemma run_ops_invariant:
  "client (run_ops lib cfg (AIService_init ok) ops) = ok \<and>
   (\<forall>sid h. session_histories (run_ops lib cfg (AIService_init ok) ops) sid = Some h \<longrightarrow>
      (\<not> ok \<longrightarrow> h = []) \<and>
      (h \<noteq> [] \<longrightarrow>
         responds_for sid ops \<noteq> [] \<and>
         h ! 0 = \<lparr> role = ascii ''system'',
                   content = JStr (call_prompt lib cfg (last (responds_for sid ops))) \<rparr> \<and>
         system_entries h = [h ! 0]))"
proof (induction ops rule: rev_induct)
  case Nil
  show ?case
    by (simp add: run_ops_def AIService_init_def)
next
  case (snoc op ops)
  let ?a = "run_ops lib cfg (AIService_init ok) ops"
  note run = run_ops_snoc
  have cl: "client ?a = ok"
    using snoc.IH by blast
  have ih: "session_histories ?a sid = Some h \<Longrightarrow>
      (\<not> ok \<longrightarrow> h = []) \<and>
      (h \<noteq> [] \<longrightarrow>
         responds_for sid ops \<noteq> [] \<and>
         h ! 0 = \<lparr> role = ascii ''system'',
                   content = JStr (call_prompt lib cfg (last (responds_for sid ops))) \<rparr> \<and>
         system_entries h = [h ! 0])" for sid h
    using snoc.IH by blast
  show ?case
  proof (cases op)
    case (Clear s)
    then show ?thesis
      using cl ih
      by (auto simp: run apply_op_def clear_character_history_def clear_session_history_def
          responds_for_snoc split: if_splits)
  next
    case (Info s)
    then show ?thesis
      using cl ih
      by (auto simp: run apply_op_def get_session_info_def get_session_history_def
          responds_for_snoc split: if_splits option.splits)
  next
    case (Respond c)
    show ?thesis
    proof (cases ok)
      case False
      then have "apply_op lib cfg ?a op = ?a"
        using cl Respond by (simp add: apply_op_def respond_without_client)
      then show ?thesis
        using cl ih False by (auto simp: run)
    next
      case True
      then have "client ?a"
        using cl by simp
      from respond_stored [OF this, of lib cfg c]
      obtain extra where
        st: "session_histories (fst (respond lib cfg ?a c)) =
               (session_histories ?a)(call_session c \<mapsto>
                  put_system_prompt (history_of ?a (call_session c)) (call_prompt lib cfg c) @
                  \<lparr> role = ascii ''user'', content = JStr (call_message c) \<rparr> # extra)"
        and ex: "\<forall>m \<in> set extra. role m = ascii ''assistant''"
        and c': "client (fst (respond lib cfg ?a c))"
        by blast
      let ?old = "history_of ?a (call_session c)"
      let ?new = "put_system_prompt ?old (call_prompt lib cfg c) @
                  \<lparr> role = ascii ''user'', content = JStr (call_message c) \<rparr> # extra"
      have h0: "?old = [] \<or> system_entries ?old = [?old ! 0]"
      proof (cases "session_histories ?a (call_session c)")
        case None
        then show ?thesis
          by (simp add: history_of_def)
      next
        case (Some h')
        from ih [OF Some] show ?thesis
          using Some by (auto simp: history_of_def)
      qed
      have se: "system_entries ?new = [\<lparr> role = ascii ''system'',
                                       content = JStr (call_prompt lib cfg c) \<rparr>]"
        using h0 ex by (rule system_entries_after_call)
      have first: "?new ! 0 = \<lparr> role = ascii ''system'',
                              content = JStr (call_prompt lib cfg c) \<rparr>"
        using put_system_prompt_first [of ?old "call_prompt lib cfg c"]
        by (simp add: nth_append)
      have ap: "apply_op lib cfg ?a op = fst (respond lib cfg ?a c)"
        using Respond by (simp add: apply_op_def)
      have "(\<not> ok \<longrightarrow> h = []) \<and>
            (h \<noteq> [] \<longrightarrow>
               responds_for sid (ops @ [op]) \<noteq> [] \<and>
               h ! 0 = \<lparr> role = ascii ''system'',
                         content = JStr (call_prompt lib cfg
                                     (last (responds_for sid (ops @ [op])))) \<rparr> \<and>
               system_entries h = [h ! 0])"
        if s: "session_histories (fst (respond lib cfg ?a c)) sid = Some h" for sid h
      proof (cases "sid = call_session c")
        case same: True
        with s have "h = ?new"
          by (simp add: st)
        then show ?thesis
          using True same se first by (simp add: responds_for_snoc Respond)
      next
        case other: False
        with s have "session_histories ?a sid = Some h"
          by (simp add: st)
        from ih [OF this] show ?thesis
          using other by (simp add: responds_for_snoc Respond)
      qed
      then show ?thesis
        unfolding run ap using True c' by blast
    qed
  qed
qed

lemma stored_twice:
  "get_session_history a sid = (a0, h0) \<Longrightarrow>
   a0\<lparr> session_histories := (session_histories a0)(sid \<mapsto> h) \<rparr> =
   a\<lparr> session_histories := (session_histories a)(sid \<mapsto> h) \<rparr> \<and> h0 = history_of a sid"
  by (auto simp: get_session_history_def history_of_def split: option.splits)

text \<open>The three ways in which a call with a client ends.\<close>

lemma respond_success:
  assumes "client a"
    and "response_content (call_api c) = Inr content0"
    and "parse_reply lib (strip_fences content0) (call_mood c) = Inr (m, new_mood)"
  shows "respond lib cfg a c =
    (a\<lparr> session_histories := (session_histories a)(call_session c \<mapsto>
          put_system_prompt (history_of a (call_session c)) (call_prompt lib cfg c) @
          [\<lparr> role = ascii ''user'', content = JStr (call_message c) \<rparr>,
           \<lparr> role = ascii ''assistant'', content = m \<rparr>]) \<rparr>,
     \<lparr> msg = m, resp_mood = new_mood, status = ascii ''success'', error = None \<rparr>)"
proof -
  obtain a0 h0 where g: "get_session_history a (call_session c) = (a0, h0)"
    by (cases "get_session_history a (call_session c)")
  show ?thesis
    using assms g stored_twice [OF g]
    by (simp add: respond_def get_character_response_def call_prompt_def Let_def)
qed

lemma respond_text:
  assumes "client a"
    and "response_content (call_api c) = Inr content0"
    and "parse_reply lib (strip_fences content0) (call_mood c) = Inl e"
    and "e = JSONDecodeError \<or> e = ValueError"
  shows "respond lib cfg a c =
    (a\<lparr> session_histories := (session_histories a)(call_session c \<mapsto>
          put_system_prompt (history_of a (call_session c)) (call_prompt lib cfg c) @
          [\<lparr> role = ascii ''user'', content = JStr (call_message c) \<rparr>,
           \<lparr> role = ascii ''assistant'', content = JStr (strip_fences content0) \<rparr>]) \<rparr>,
     \<lparr> msg = JStr (strip_fences content0), resp_mood = call_mood c,
       status = ascii ''success_text'', error = None \<rparr>)"
proof -
  obtain a0 h0 where g: "get_session_history a (call_session c) = (a0, h0)"
    by (cases "get_session_history a (call_session c)")
  show ?thesis
    using assms g stored_twice [OF g]
    by (auto simp: respond_def get_character_response_def call_prompt_def Let_def)
qed

lemma respond_error:
  assumes "client a"
    and "response_content (call_api c) = Inr content0"
    and "parse_reply lib (strip_fences content0) (call_mood c) = Inl e"
    and "e \<noteq> JSONDecodeError" and "e \<noteq> ValueError"
  shows "respond lib cfg a c =
    (a\<lparr> session_histories := (session_histories a)(call_session c \<mapsto>
          put_system_prompt (history_of a (call_session c)) (call_prompt lib cfg c) @
          [\<lparr> role = ascii ''user'', content = JStr (call_message c) \<rparr>]) \<rparr>,
     error_response lib (call_name c) (call_mood c) e)"
proof -
  obtain a0 h0 where g: "get_session_history a (call_session c) = (a0, h0)"
    by (cases "get_session_history a (call_session c)")
  show ?thesis
    using assms g stored_twice [OF g]
    by (simp add: respond_def get_character_response_def call_prompt_def Let_def)
qed

lemma error_response_status: "status (error_response lib n md e) = ascii ''error'' \<and>
   resp_mood (error_response lib n md e) = md"
  by (cases e) (simp_all add: error_response_def Let_def)

section \<open>Parsing the reply\<close>

lemma parse_reply_object:
  assumes "json_loads lib content1 = Some (JObj kv)"
    and "map_of kv (ascii ''msg'') = Some m"
  shows "parse_reply lib content1 md =
    (case map_of kv (ascii ''mood'') of
       None \<Rightarrow> Inr (m, max 0 (min 1 md))
     | Some v \<Rightarrow>
         (case py_float lib v of
            Inl e \<Rightarrow> Inl e
          | Inr r \<Rightarrow> Inr (m, max 0 (min 1 r))))"
  using assms
  by (simp add: parse_reply_def dict_get_def Let_def split: option.splits sum.splits)

lemma parse_reply_not_json:
  "json_loads lib content1 = None \<Longrightarrow> parse_reply lib content1 md = Inl JSONDecodeError"
  by (simp add: parse_reply_def)

lemma parse_reply_no_msg:
  "json_loads lib content1 = Some (JObj kv) \<Longrightarrow> map_of kv (ascii ''msg'') = None \<Longrightarrow>
   parse_reply lib content1 md = Inl ValueError"
  by (simp add: parse_reply_def)

text \<open>The example replies: what is left of them after \<^verbatim>\<open>strip\<close> and the removal of the
  fence markers, and what the example library parses them to.\<close>

lemmas reply_defs = reply_mood_high_def reply_no_mood_def reply_mood_text_def
  reply_empty_object_def reply_number_def reply_plain_def reply_padded_def

lemma example_contents:
  "response_content (Completion [Some reply_mood_high]) = Inr reply_mood_high"
  "response_content (Completion [Some reply_no_mood]) = Inr reply_no_mood"
  "response_content (Completion [Some reply_mood_text]) = Inr reply_mood_text"
  "response_content (Completion [Some reply_empty_object]) = Inr reply_empty_object"
  "response_content (Completion [Some reply_number]) = Inr reply_number"
  "response_content (Completion [Some reply_plain]) = Inr reply_plain"
  "response_content (Completion [Some reply_padded]) = Inr reply_plain"
  by (simp_all add: response_content_def strip_def isspace_def reply_defs)

lemma example_fences:
  "strip_fences reply_mood_high = reply_mood_high"
  "strip_fences reply_no_mood = reply_no_mood"
  "strip_fences reply_mood_text = reply_mood_text"
  "strip_fences reply_empty_object = reply_empty_object"
  "strip_fences reply_number = reply_number"
  "strip_fences reply_plain = reply_plain"
  by (simp_all add: strip_fences_def startswith_def endswith_def reply_defs ascii_Cons ascii_Nil)

lemma example_loads:
  "json_loads demo_lib reply_mood_high =
     Some (JObj [(ascii ''msg'', JStr (ascii ''hi'')), (ascii ''mood'', JFloat 1.7)])"
  "json_loads demo_lib reply_no_mood = Some (JObj [(ascii ''msg'', JStr (ascii ''hi''))])"
  "json_loads demo_lib reply_mood_text =
     Some (JObj [(ascii ''msg'', JStr (ascii ''hi'')), (ascii ''mood'', JStr (ascii ''abc''))])"
  "json_loads demo_lib reply_empty_object = Some (JObj [])"
  "json_loads demo_lib reply_number = Some (JInt 42)"
  "json_loads demo_lib reply_plain = None"
  by (simp_all add: demo_lib_def demo_json_loads_def reply_defs)

lemma demo_float: "float_of_str demo_lib s = None"
  by (simp add: demo_lib_def)

lemma example_parses:
  "parse_reply demo_lib reply_mood_high md = Inr (JStr (ascii ''hi''), 1)"
  "parse_reply demo_lib reply_no_mood md = Inr (JStr (ascii ''hi''), max 0 (min 1 md))"
  "parse_reply demo_lib reply_mood_text md = Inl ValueError"
  "parse_reply demo_lib reply_empty_object md = Inl ValueError"
  "parse_reply demo_lib reply_number md = Inl TypeError"
  "parse_reply demo_lib reply_plain md = Inl JSONDecodeError"
  by (simp_all add: parse_reply_def example_loads dict_get_def ascii_eq_iff demo_float)

lemma elder_call_fields:
  "call_api (elder_call md reply) = Completion [Some reply]"
  "call_mood (elder_call md reply) = md"
  "call_session (elder_call md reply) = ascii ''char_elder''"
  "call_name (elder_call md reply) = elder_name"
  "call_message (elder_call md reply) = ascii ''hello''"
  by (simp_all add: elder_call_def)

section \<open>The outcome of a reply\<close>

text \<open>
  Claim C4 as stated fails.  The reply \<^verbatim>\<open>{"msg":"hi","mood":"abc"}\<close> parses as a JSON
  object with a \<^verbatim>\<open>msg\<close> field and a mood that is not a number; \<^verbatim>\<open>float\<close> raises
  \<^verbatim>\<open>ValueError\<close>, which the handler of line 161 catches, and the status is
  \<open>success_text\<close>, not \<open>success\<close>.
\<close>

theorem unparseable_mood_is_not_success:
  "json_loads demo_lib reply_mood_text =
     Some (JObj [(ascii ''msg'', JStr (ascii ''hi'')), (ascii ''mood'', JStr (ascii ''abc''))]) \<and>
   float_of_str demo_lib (ascii ''abc'') = None \<and>
   snd (respond demo_lib file_config (AIService_init True) (elder_call 0.7 reply_mood_text)) =
     \<lparr> msg = JStr reply_mood_text, resp_mood = 0.7, status = ascii ''success_text'',
       error = None \<rparr> \<and>
   ascii ''success_text'' \<noteq> ascii ''success''"
proof -
  have c: "client (AIService_init True)"
    by (simp add: AIService_init_def)
  have r: "response_content (call_api (elder_call 0.7 reply_mood_text)) = Inr reply_mood_text"
    by (simp add: elder_call_fields example_contents)
  have p: "parse_reply demo_lib (strip_fences reply_mood_text)
             (call_mood (elder_call 0.7 reply_mood_text)) = Inl ValueError"
    by (simp add: example_fences example_parses)
  show ?thesis
    by (simp add: respond_text [OF c r p] example_loads demo_float example_fences
        elder_call_fields ascii_eq_iff)
qed

text \<open>
  Claim C4, amended.  When the reply text, stripped and without fence markers, parses
  as a JSON object with a \<^verbatim>\<open>msg\<close> field, the call returns
  \<^item> the status \<open>success\<close>, the \<^verbatim>\<open>msg\<close> value and the mood clamped to \<open>[0, 1]\<close>, when
    \<^verbatim>\<open>float\<close> accepts the \<^verbatim>\<open>mood\<close> value (a JSON number, for one);
  \<^item> the status \<open>success\<close>, the \<^verbatim>\<open>msg\<close> value and the caller's mood clamped to
    \<open>[0, 1]\<close>, which is the caller's mood itself when that lies in \<open>[0, 1]\<close>, when there
    is no \<^verbatim>\<open>mood\<close> field;
  \<^item> the status \<open>success_text\<close>, the reply text as the message and the caller's mood
    unchanged, when \<^verbatim>\<open>float\<close> raises \<^verbatim>\<open>ValueError\<close> on the \<^verbatim>\<open>mood\<close> value (a string that
    is not a number).
\<close>

theorem reply_with_msg_outcome:
  assumes "client a"
    and "response_content (call_api c) = Inr content0"
    and "json_loads lib (strip_fences content0) = Some (JObj kv)"
    and "map_of kv (ascii ''msg'') = Some m"
  shows
    "(map_of kv (ascii ''mood'') = Some v \<and> py_float lib v = Inr r \<longrightarrow>
        snd (respond lib cfg a c) =
          \<lparr> msg = m, resp_mood = max 0 (min 1 r), status = ascii ''success'', error = None \<rparr>) \<and>
     (map_of kv (ascii ''mood'') = None \<longrightarrow>
        snd (respond lib cfg a c) =
          \<lparr> msg = m, resp_mood = max 0 (min 1 (call_mood c)), status = ascii ''success'',
            error = None \<rparr> \<and>
        (0 \<le> call_mood c \<and> call_mood c \<le> 1 \<longrightarrow>
           resp_mood (snd (respond lib cfg a c)) = call_mood c)) \<and>
     (map_of kv (ascii ''mood'') = Some v \<and> py_float lib v = Inl ValueError \<longrightarrow>
        snd (respond lib cfg a c) =
          \<lparr> msg = JStr (strip_fences content0), resp_mood = call_mood c,
            status = ascii ''success_text'', error = None \<rparr>)"
proof -
  note p = parse_reply_object [OF assms(3) assms(4), of "call_mood c"]
  have 1: "snd (respond lib cfg a c) =
          \<lparr> msg = m, resp_mood = max 0 (min 1 r), status = ascii ''success'', error = None \<rparr>"
    if "map_of kv (ascii ''mood'') = Some v" and "py_float lib v = Inr r"
    using respond_success [OF assms(1) assms(2), of lib m "max 0 (min 1 r)" cfg] p that
    by simp
  have 2: "snd (respond lib cfg a c) =
          \<lparr> msg = m, resp_mood = max 0 (min 1 (call_mood c)), status = ascii ''success'',
            error = None \<rparr>"
    if "map_of kv (ascii ''mood'') = None"
    using respond_success [OF assms(1) assms(2), of lib m "max 0 (min 1 (call_mood c))" cfg]
      p that
    by simp
  have 3: "snd (respond lib cfg a c) =
          \<lparr> msg = JStr (strip_fences content0), resp_mood = call_mood c,
            status = ascii ''success_text'', error = None \<rparr>"
    if "map_of kv (ascii ''mood'') = Some v" and "py_float lib v = Inl ValueError"
    using respond_text [OF assms(1) assms(2), of lib ValueError cfg] p that
    by simp
  show ?thesis
    using 1 2 3 by auto
qed

text \<open>The reply \<^verbatim>\<open>{"msg":"hi","mood":1.7}\<close> gives the mood 1.0 and the status \<open>success\<close>;
  \<^verbatim>\<open>{"msg":"hi"}\<close> leaves the elder's mood at 0.7; \<^verbatim>\<open>{"msg":"hi","mood":"abc"}\<close> is
  answered as text.\<close>

theorem reply_with_msg_outcome_witness:
  "snd (respond demo_lib file_config (AIService_init True) (elder_call 0.7 reply_mood_high)) =
     \<lparr> msg = JStr (ascii ''hi''), resp_mood = 1, status = ascii ''success'', error = None \<rparr> \<and>
   snd (respond demo_lib file_config (AIService_init True) (elder_call 0.7 reply_no_mood)) =
     \<lparr> msg = JStr (ascii ''hi''), resp_mood = 0.7, status = ascii ''success'', error = None \<rparr> \<and>
   snd (respond demo_lib file_config (AIService_init True) (elder_call 0.7 reply_mood_text)) =
     \<lparr> msg = JStr reply_mood_text, resp_mood = 0.7, status = ascii ''success_text'',
       error = None \<rparr>"
proof -
  have c: "client (AIService_init True)"
    by (simp add: AIService_init_def)
  have r: "response_content (call_api (elder_call 0.7 reply_mood_high)) = Inr reply_mood_high"
    "response_content (call_api (elder_call 0.7 reply_no_mood)) = Inr reply_no_mood"
    "response_content (call_api (elder_call 0.7 reply_mood_text)) = Inr reply_mood_text"
    by (simp_all add: elder_call_fields example_contents)
  have l: "json_loads demo_lib (strip_fences reply_mood_high) =
       Some (JObj [(ascii ''msg'', JStr (ascii ''hi'')), (ascii ''mood'', JFloat 1.7)])"
    "json_loads demo_lib (strip_fences reply_no_mood) =
       Some (JObj [(ascii ''msg'', JStr (ascii ''hi''))])"
    "json_loads demo_lib (strip_fences reply_mood_text) =
       Some (JObj [(ascii ''msg'', JStr (ascii ''hi'')), (ascii ''mood'', JStr (ascii ''abc''))])"
    by (simp_all add: example_fences example_loads)
  have m: "map_of [(ascii ''msg'', JStr (ascii ''hi'')), (ascii ''mood'', JFloat 1.7)]
             (ascii ''msg'') = Some (JStr (ascii ''hi''))"
    "map_of [(ascii ''msg'', JStr (ascii ''hi''))] (ascii ''msg'') = Some (JStr (ascii ''hi''))"
    "map_of [(ascii ''msg'', JStr (ascii ''hi'')), (ascii ''mood'', JStr (ascii ''abc''))]
             (ascii ''msg'') = Some (JStr (ascii ''hi''))"
    by simp_all
  have f: "py_float demo_lib (JStr (ascii ''abc'')) = Inl ValueError"
    by (simp add: demo_float)
  show ?thesis
    using reply_with_msg_outcome [OF c r(1) l(1) m(1), of "JFloat 1.7" "1.7" file_config]
      reply_with_msg_outcome [OF c r(2) l(2) m(2), of _ _ file_config]
      reply_with_msg_outcome [OF c r(3) l(3) m(3), of "JStr (ascii ''abc'')" _ file_config] f
    by (simp add: ascii_eq_iff elder_call_fields example_fences)
qed

text \<open>
  Claim C5 as stated fails.  The message of the text path is not the reply as the
  endpoint sent it: line 128 strips it and lines 133 to 136 cut the fence markers off
  before the handler of line 161 takes \<^verbatim>\<open>content\<close>.  The reply \<^verbatim>\<open>hello there\<close> after a
  space is answered with the text without the space.
\<close>

theorem text_reply_is_not_verbatim:
  "msg (snd (respond demo_lib file_config (AIService_init True) (elder_call 0.7 reply_padded))) =
     JStr reply_plain \<and>
   reply_plain \<noteq> reply_padded \<and>
   status (snd (respond demo_lib file_config (AIService_init True)
                  (elder_call 0.7 reply_padded))) = ascii ''success_text''"
proof -
  have c: "client (AIService_init True)"
    by (simp add: AIService_init_def)
  have r: "response_content (call_api (elder_call 0.7 reply_padded)) = Inr reply_plain"
    by (simp add: elder_call_fields example_contents)
  have p: "parse_reply demo_lib (strip_fences reply_plain)
             (call_mood (elder_call 0.7 reply_padded)) = Inl JSONDecodeError"
    by (simp add: example_fences example_parses)
  have d: "reply_plain \<noteq> reply_padded"
    by (simp add: reply_defs)
  show ?thesis
    using d by (simp add: respond_text [OF c r p] example_fences)
qed

text \<open>
  Claim C5, amended.  Let the text be the content of the first choice after \<^verbatim>\<open>strip()\<close>
  and after the removal of the fence markers.  When \<^verbatim>\<open>json.loads\<close> rejects the text, or
  parses it as a JSON object without a \<^verbatim>\<open>msg\<close> field, the call returns the text as the
  message, the caller's mood unchanged and the status \<open>success_text\<close>, and the session
  history ends with the user turn and an assistant turn that holds the text.
\<close>

theorem malformed_reply_is_text:
  assumes "client a"
    and "call_api c = Completion (Some raw # others)"
    and "raw \<noteq> []"
    and "json_loads lib (strip_fences (strip raw)) = None \<or>
         (\<exists>kv. json_loads lib (strip_fences (strip raw)) = Some (JObj kv) \<and>
               map_of kv (ascii ''msg'') = None)"
  shows "respond lib cfg a c =
    (a\<lparr> session_histories := (session_histories a)(call_session c \<mapsto>
          put_system_prompt (history_of a (call_session c)) (call_prompt lib cfg c) @
          [\<lparr> role = ascii ''user'', content = JStr (call_message c) \<rparr>,
           \<lparr> role = ascii ''assistant'', content = JStr (strip_fences (strip raw)) \<rparr>]) \<rparr>,
     \<lparr> msg = JStr (strip_fences (strip raw)), resp_mood = call_mood c,
       status = ascii ''success_text'', error = None \<rparr>)"
proof -
  have r: "response_content (call_api c) = Inr (strip raw)"
    using assms(2,3) by (simp add: response_content_def)
  from assms(4) obtain e where
    p: "parse_reply lib (strip_fences (strip raw)) (call_mood c) = Inl e"
    and e: "e = JSONDecodeError \<or> e = ValueError"
    by (auto simp: parse_reply_not_json parse_reply_no_msg)
  show ?thesis
    by (rule respond_text [OF assms(1) r p e])
qed

text \<open>The reply \<^verbatim>\<open>hello there\<close>, which is not JSON, and the reply \<^verbatim>\<open>{}\<close>, an object
  without \<^verbatim>\<open>msg\<close>, in the first call of a session.\<close>

theorem malformed_reply_is_text_witness:
  "respond demo_lib file_config (AIService_init True) (elder_call 0.7 reply_plain) =
    (\<lparr> client = True,
       session_histories = [ascii ''char_elder'' \<mapsto>
         [\<lparr> role = ascii ''system'',
            content = JStr (call_prompt demo_lib file_config (elder_call 0.7 reply_plain)) \<rparr>,
          \<lparr> role = ascii ''user'', content = JStr (ascii ''hello'') \<rparr>,
          \<lparr> role = ascii ''assistant'', content = JStr reply_plain \<rparr>]] \<rparr>,
     \<lparr> msg = JStr reply_plain, resp_mood = 0.7, status = ascii ''success_text'',
       error = None \<rparr>) \<and>
   snd (respond demo_lib file_config (AIService_init True)
          (elder_call 0.7 reply_empty_object)) =
     \<lparr> msg = JStr reply_empty_object, resp_mood = 0.7, status = ascii ''success_text'',
       error = None \<rparr>"
proof -
  have c: "client (AIService_init True)"
    by (simp add: AIService_init_def)
  have a: "call_api (elder_call 0.7 reply_plain) = Completion (Some reply_plain # [])"
    "call_api (elder_call 0.7 reply_empty_object) = Completion (Some reply_empty_object # [])"
    by (simp_all add: elder_call_fields)
  have n: "reply_plain \<noteq> []" "reply_empty_object \<noteq> []"
    by (simp_all add: reply_defs)
  have s: "strip reply_plain = reply_plain" "strip reply_empty_object = reply_empty_object"
    by (simp_all add: strip_def isspace_def reply_defs)
  have l: "json_loads demo_lib (strip_fences (strip reply_plain)) = None \<or>
         (\<exists>kv. json_loads demo_lib (strip_fences (strip reply_plain)) = Some (JObj kv) \<and>
               map_of kv (ascii ''msg'') = None)"
    "json_loads demo_lib (strip_fences (strip reply_empty_object)) = None \<or>
         (\<exists>kv. json_loads demo_lib (strip_fences (strip reply_empty_object)) =
                 Some (JObj kv) \<and>
               map_of kv (ascii ''msg'') = None)"
    by (simp_all add: s example_fences example_loads)
  show ?thesis
    using malformed_reply_is_text [OF c a(1) n(1) l(1), of file_config]
      malformed_reply_is_text [OF c a(2) n(2) l(2), of file_config]
    by (simp add: s example_fences elder_call_fields AIService_init_def history_of_def
        put_system_prompt_def)
qed

text \<open>A reply that is JSON but neither an object, a list nor a string, such as \<^verbatim>\<open>42\<close>,
  is outside the amended claim: the test for \<^verbatim>\<open>msg\<close> raises \<^verbatim>\<open>TypeError\<close>, which only the
  outermost handler catches, and the call ends with the status \<open>error\<close> and without an
  assistant turn.\<close>

lemma bare_number_reply_is_error:
  "status (snd (respond demo_lib file_config (AIService_init True)
                  (elder_call 0.7 reply_number))) = ascii ''error'' \<and>
   map_option length
     (session_histories (fst (respond demo_lib file_config (AIService_init True)
                                (elder_call 0.7 reply_number))) (ascii ''char_elder'')) = Some 2"
proof -
  have c: "client (AIService_init True)"
    by (simp add: AIService_init_def)
  have r: "response_content (call_api (elder_call 0.7 reply_number)) = Inr reply_number"
    by (simp add: elder_call_fields example_contents)
  have p: "parse_reply demo_lib (strip_fences reply_number)
             (call_mood (elder_call 0.7 reply_number)) = Inl TypeError"
    by (simp add: example_fences example_parses)
  note x = respond_error [OF c r p, simplified]
  show ?thesis
    unfolding x
    by (simp add: error_response_status elder_call_fields put_system_prompt_length
        history_of_def AIService_init_def)
qed

section \<open>The length of a session history\<close>

lemma history_of_stored:
  "history_of (a\<lparr> session_histories := (session_histories a)(sid \<mapsto> h) \<rparr>) sid = h"
  by (simp add: history_of_def)

text \<open>A call that ends with the status \<open>success\<close> makes the stored history two entries
  longer, and three when it has to insert the system message.\<close>

lemma successful_call_length:
  assumes "client a"
    and "response_content (call_api c) = Inr content0"
    and "parse_reply lib (strip_fences content0) (call_mood c) = Inr (m, new_mood)"
  shows "client (fst (respond lib cfg a c)) \<and>
         history_of (fst (respond lib cfg a c)) (call_session c) \<noteq> [] \<and>
         role (history_of (fst (respond lib cfg a c)) (call_session c) ! 0) = ascii ''system'' \<and>
         length (history_of (fst (respond lib cfg a c)) (call_session c)) =
           (if history_of a (call_session c) = [] \<or>
               role (history_of a (call_session c) ! 0) \<noteq> ascii ''system''
            then length (history_of a (call_session c)) + 3
            else length (history_of a (call_session c)) + 2)"
  using put_system_prompt_first [of "history_of a (call_session c)" "call_prompt lib cfg c"]
  by (simp add: respond_success [OF assms] history_of_stored put_system_prompt_length assms(1)
      nth_append)

lemma successful_calls_length:
  assumes "client a"
    and "response_content (call_api c) = Inr content0"
    and "parse_reply lib (strip_fences content0) (call_mood c) = Inr (m, new_mood)"
    and "history_of a (call_session c) = []"
  shows "client (run_ops lib cfg a (replicate n (Respond c))) \<and>
         length (history_of (run_ops lib cfg a (replicate n (Respond c))) (call_session c)) =
           (if n = 0 then 0 else 2 * n + 1) \<and>
         (0 < n \<longrightarrow>
            role (history_of (run_ops lib cfg a (replicate n (Respond c))) (call_session c) ! 0) =
              ascii ''system'')"
proof (induction n)
  case 0
  show ?case
    using assms(1,4) by (simp add: run_ops_def)
next
  case (Suc n)
  let ?a = "run_ops lib cfg a (replicate n (Respond c))"
  have "replicate (Suc n) (Respond c) = replicate n (Respond c) @ [Respond c]"
    by (simp add: replicate_append_same)
  then have run: "run_ops lib cfg a (replicate (Suc n) (Respond c)) =
                    fst (respond lib cfg ?a c)"
    by (simp only: run_ops_snoc) (simp add: apply_op_def)
  have cl: "client ?a"
    using Suc.IH by blast
  note step = successful_call_length [OF cl assms(2) assms(3), of cfg]
  show ?case
  proof (cases "n = 0")
    case True
    then have "history_of ?a (call_session c) = []"
      using Suc.IH by simp
    with step show ?thesis
      unfolding run using True by simp
  next
    case False
    then have "history_of ?a (call_session c) \<noteq> [] \<and>
               role (history_of ?a (call_session c) ! 0) = ascii ''system'' \<and>
               length (history_of ?a (call_session c)) = 2 * n + 1"
      using Suc.IH by auto
    with step show ?thesis
      unfolding run by simp
  qed
qed

text \<open>
  Claim C1, which the code does not meet.  The truncation of line 153 binds a new list
  to the local name and leaves the stored list as it is, so the stored history keeps
  growing: after ten calls that end with the status \<open>success\<close> the history of the
  session has 21 entries.
\<close>

theorem session_history_exceeds_20:
  "map_option length
     (session_histories
        (run_ops demo_lib file_config (AIService_init True)
           (replicate 10 (Respond (elder_call 0.7 reply_mood_high))))
        (ascii ''char_elder'')) = Some 21 \<and>
   status (snd (respond demo_lib file_config (AIService_init True)
                  (elder_call 0.7 reply_mood_high))) = ascii ''success''"
proof -
  let ?c = "elder_call 0.7 reply_mood_high"
  let ?a = "run_ops demo_lib file_config (AIService_init True) (replicate 10 (Respond ?c))"
  have c: "client (AIService_init True)"
    by (simp add: AIService_init_def)
  have r: "response_content (call_api ?c) = Inr reply_mood_high"
    by (simp add: elder_call_fields example_contents)
  have p: "parse_reply demo_lib (strip_fences reply_mood_high) (call_mood ?c) =
             Inr (JStr (ascii ''hi''), 1)"
    by (simp add: example_fences example_parses)
  have e: "history_of (AIService_init True) (call_session ?c) = []"
    by (simp add: history_of_def AIService_init_def)
  from successful_calls_length [OF c r p e, of file_config 10]
  have l: "length (history_of ?a (ascii ''char_elder'')) = 21"
    by (simp add: elder_call_fields)
  then have "session_histories ?a (ascii ''char_elder'') \<noteq> None"
    by (auto simp: history_of_def split: option.splits)
  with l have "map_option length (session_histories ?a (ascii ''char_elder'')) = Some 21"
    by (auto simp: history_of_def)
  then show ?thesis
    by (simp add: respond_success [OF c r p])
qed

section \<open>The system prompt of a session\<close>

lemma respond_replaces_first:
  assumes "client a"
  shows "\<exists>extra.
     history_of (fst (respond lib cfg a c)) (call_session c) =
       \<lparr> role = ascii ''system'', content = JStr (call_prompt lib cfg c) \<rparr> #
       (if history_of a (call_session c) = [] \<or>
           role (history_of a (call_session c) ! 0) \<noteq> ascii ''system''
        then history_of a (call_session c)
        else tl (history_of a (call_session c))) @ extra \<and>
     system_entries extra = []"
proof -
  let ?old = "history_of a (call_session c)"
  let ?p = "put_system_prompt ?old (call_prompt lib cfg c)"
  from respond_stored [OF assms, of lib cfg c]
  obtain extra where
    st: "session_histories (fst (respond lib cfg a c)) =
           (session_histories a)(call_session c \<mapsto>
              ?p @ \<lparr> role = ascii ''user'', content = JStr (call_message c) \<rparr> # extra)"
    and ex: "\<forall>m \<in> set extra. role m = ascii ''assistant''"
    by blast
  have "?p = ?p ! 0 # tl ?p"
    using put_system_prompt_first [of ?old "call_prompt lib cfg c"]
    by (cases ?p) simp_all
  then have p: "?p = \<lparr> role = ascii ''system'', content = JStr (call_prompt lib cfg c) \<rparr> #
                 (if ?old = [] \<or> role (?old ! 0) \<noteq> ascii ''system'' then ?old else tl ?old)"
    using put_system_prompt_first [of ?old "call_prompt lib cfg c"] by simp
  have "system_entries (\<lparr> role = ascii ''user'', content = JStr (call_message c) \<rparr> # extra) = []"
    using ex by (auto simp: system_entries_def filter_empty_conv role_distinct)
  moreover have "history_of (fst (respond lib cfg a c)) (call_session c) =
      ?p @ \<lparr> role = ascii ''user'', content = JStr (call_message c) \<rparr> # extra"
    by (simp add: history_of_def st)
  ultimately show ?thesis
    using p by (metis append_Cons)
qed

text \<open>
  Claim C7.  In every run of the service that starts with a new service, a session
  history that is not empty has, as its element 0, the system entry with the prompt
  built by the latest \<^verbatim>\<open>get_character_response\<close> call for that session, and this is
  the only system entry of the history.  A single call, on any service with a client,
  puts the system entry with its prompt in front: in place of element 0 when that was
  a system entry, and before the old history otherwise; the entries it appends after
  the old history are no system entries.
\<close>

theorem system_prompt_is_first_entry:
  "(session_histories (run_ops lib cfg (AIService_init ok) ops) sid = Some h \<and> h \<noteq> [] \<longrightarrow>
      responds_for sid ops \<noteq> [] \<and>
      h ! 0 = \<lparr> role = ascii ''system'',
                content = JStr (call_prompt lib cfg (last (responds_for sid ops))) \<rparr> \<and>
      system_entries h = [h ! 0]) \<and>
   (client a \<longrightarrow>
      (\<exists>extra.
         history_of (fst (respond lib cfg a c)) (call_session c) =
           \<lparr> role = ascii ''system'', content = JStr (call_prompt lib cfg c) \<rparr> #
           (if history_of a (call_session c) = [] \<or>
               role (history_of a (call_session c) ! 0) \<noteq> ascii ''system''
            then history_of a (call_session c)
            else tl (history_of a (call_session c))) @ extra \<and>
         system_entries extra = []))"
  using run_ops_invariant [of lib cfg ok ops] respond_replaces_first [of a lib cfg c]
  by blast

lemma elder_prompts_differ:
  "call_prompt demo_lib file_config (elder_call 0.7 r) \<noteq>
   call_prompt demo_lib file_config (elder_call 1 r')"
  by (simp add: call_prompt_def build_character_prompt_def elder_call_def demo_lib_def
      demo_format_2f_def ascii_Cons ascii_Nil)

text \<open>Two calls for the elder, with the moods 0.7 and 1.0: the history has the prompt of
  the second call as its only system entry, and it differs from the prompt of the
  first call.\<close>

theorem system_prompt_is_first_entry_witness:
  "session_histories
     (run_ops demo_lib file_config (AIService_init True)
        [Respond (elder_call 0.7 reply_mood_high), Respond (elder_call 1 reply_mood_high)])
     (ascii ''char_elder'') =
   Some [\<lparr> role = ascii ''system'',
            content = JStr (call_prompt demo_lib file_config (elder_call 1 reply_mood_high)) \<rparr>,
         \<lparr> role = ascii ''user'', content = JStr (ascii ''hello'') \<rparr>,
         \<lparr> role = ascii ''assistant'', content = JStr (ascii ''hi'') \<rparr>,
         \<lparr> role = ascii ''user'', content = JStr (ascii ''hello'') \<rparr>,
         \<lparr> role = ascii ''assistant'', content = JStr (ascii ''hi'') \<rparr>] \<and>
   call_prompt demo_lib file_config (elder_call 0.7 reply_mood_high) \<noteq>
   call_prompt demo_lib file_config (elder_call 1 reply_mood_high) \<and>
   history_of (fst (respond demo_lib file_config (AIService_init True)
                      (elder_call 0.7 reply_mood_high))) (ascii ''char_elder'') ! 0 =
     \<lparr> role = ascii ''system'',
       content = JStr (call_prompt demo_lib file_config (elder_call 0.7 reply_mood_high)) \<rparr>"
proof -
  let ?c1 = "elder_call 0.7 reply_mood_high"
  let ?c2 = "elder_call 1 reply_mood_high"
  let ?a1 = "fst (respond demo_lib file_config (AIService_init True) ?c1)"
  let ?sid = "ascii ''char_elder''"
  let ?ops = "[Respond ?c1, Respond ?c2]"
  have c: "client (AIService_init True)"
    by (simp add: AIService_init_def)
  have r: "response_content (call_api (elder_call md reply_mood_high)) = Inr reply_mood_high"
    for md
    by (simp add: elder_call_fields example_contents)
  have p: "parse_reply demo_lib (strip_fences reply_mood_high)
             (call_mood (elder_call md reply_mood_high)) = Inr (JStr (ascii ''hi''), 1)" for md
    by (simp add: example_fences example_parses)
  have s1: "respond demo_lib file_config (AIService_init True) ?c1 =
      (\<lparr> client = True,
         session_histories = [?sid \<mapsto>
           [\<lparr> role = ascii ''system'', content = JStr (call_prompt demo_lib file_config ?c1) \<rparr>,
            \<lparr> role = ascii ''user'', content = JStr (ascii ''hello'') \<rparr>,
            \<lparr> role = ascii ''assistant'', content = JStr (ascii ''hi'') \<rparr>]] \<rparr>,
       \<lparr> msg = JStr (ascii ''hi''), resp_mood = 1, status = ascii ''success'', error = None \<rparr>)"
    unfolding respond_success [OF c r p]
    by (simp add: elder_call_fields AIService_init_def history_of_def put_system_prompt_def)
  have c1: "client ?a1"
    by (simp add: s1)
  have s2: "session_histories (fst (respond demo_lib file_config ?a1 ?c2)) ?sid =
      Some [\<lparr> role = ascii ''system'', content = JStr (call_prompt demo_lib file_config ?c2) \<rparr>,
            \<lparr> role = ascii ''user'', content = JStr (ascii ''hello'') \<rparr>,
            \<lparr> role = ascii ''assistant'', content = JStr (ascii ''hi'') \<rparr>,
            \<lparr> role = ascii ''user'', content = JStr (ascii ''hello'') \<rparr>,
            \<lparr> role = ascii ''assistant'', content = JStr (ascii ''hi'') \<rparr>]"
    unfolding respond_success [OF c1 r p]
    by (simp add: s1 elder_call_fields history_of_def put_system_prompt_def)
  have run: "run_ops demo_lib file_config (AIService_init True) ?ops =
               fst (respond demo_lib file_config ?a1 ?c2)"
    by (simp add: run_ops_def apply_op_def)
  have l: "last (responds_for ?sid ?ops) = ?c2"
    by (simp add: elder_call_fields)
  note inst = system_prompt_is_first_entry [of demo_lib file_config True ?ops ?sid _
      "AIService_init True" ?c1]
  from inst c obtain extra where
    "history_of ?a1 (call_session ?c1) =
       \<lparr> role = ascii ''system'', content = JStr (call_prompt demo_lib file_config ?c1) \<rparr> #
       (if history_of (AIService_init True) (call_session ?c1) = [] \<or>
           role (history_of (AIService_init True) (call_session ?c1) ! 0) \<noteq> ascii ''system''
        then history_of (AIService_init True) (call_session ?c1)
        else tl (history_of (AIService_init True) (call_session ?c1))) @ extra"
    by blast
  then have first: "history_of ?a1 ?sid ! 0 =
      \<lparr> role = ascii ''system'', content = JStr (call_prompt demo_lib file_config ?c1) \<rparr>"
    by (simp add: elder_call_fields)
  from inst s2 have "responds_for ?sid ?ops \<noteq> []"
    unfolding run by blast
  with s2 first elder_prompts_differ [of reply_mood_high reply_mood_high] show ?thesis
    unfolding run by simp
qed


end
